theory Spec2Isabelle
  imports Main "HOL-Library.Word"
begin

section \<open>JavaScript values as the handlers read them\<close>

text \<open>
  The handlers compare values that come from outside (a decoded JSON body, a request
  header) with \<open>===\<close>, test them for truthiness and splice them into template strings.
  \<open>jsval\<close> holds the values for which these three operations differ: \<open>JNum\<close> is an
  integral number that the language prints digit by digit (its magnitude is below
  \<open>10^21\<close>), and \<open>JOther s\<close> stands for any other value there is (another number, an
  object, an array), carried with its string conversion \<open>s\<close>. Such a value is never
  \<open>===\<close> to one of the numbers or string literals the handlers compare with.

  A string that the code only compares, splices or passes on is the sequence of the bytes
  of its UTF-8 form (\<open>string\<close>). A string that the code hands to \<open>encodeURIComponent\<close>
  is the sequence of its UTF-16 code units (\<open>js_string\<close>), because that function fails
  on a surrogate without its partner.
\<close>

type_synonym js_string = "16 word list"

datatype jsval =
    JUndefined
  | JNull
  | JBool bool
  | JNum int
  | JStr string
  | JOther string

definition digit_char :: "nat \<Rightarrow> char" where
  "digit_char d = ''0123456789ABCDEF'' ! d"

fun show_nat :: "nat \<Rightarrow> string" where
  "show_nat n = (if n < 10 then [digit_char n] else show_nat (n div 10) @ [digit_char (n mod 10)])"

declare show_nat.simps [simp del]

definition show_int :: "int \<Rightarrow> string" where
  "show_int i = (if i < 0 then CHR ''-'' # show_nat (nat (- i)) else show_nat (nat i))"

text \<open>The conversion a template literal applies to an interpolated value.\<close>

fun to_string :: "jsval \<Rightarrow> string" where
  "to_string JUndefined = ''undefined''"
| "to_string JNull = ''null''"
| "to_string (JBool b) = (if b then ''true'' else ''false'')"
| "to_string (JNum i) = show_int i"
| "to_string (JStr s) = s"
| "to_string (JOther s) = s"

text \<open>\<open>a || d\<close> on a value that is a string or \<open>undefined\<close>: the empty string is falsy.\<close>

definition or_default :: "'a list option \<Rightarrow> 'a list \<Rightarrow> 'a list" where
  "or_default a d = (case a of None \<Rightarrow> d | Some s \<Rightarrow> if s = [] then d else s)"

text \<open>
  What a \<open>catch\<close> block receives: an \<open>Error\<close> object with its message, or any other
  thrown value with its string conversion. The handlers render both with
  \<open>error instanceof Error ? error.message : String(error)\<close>.
\<close>

datatype thrown = ErrorObj string | NonError string

fun error_text :: "thrown \<Rightarrow> string" where
  "error_text (ErrorObj m) = m"
| "error_text (NonError s) = s"

datatype 'a outcome = Resolves 'a | Rejects thrown

section \<open>Configuration and process start (config.ts, index.ts)\<close>

text \<open>
  \<open>process.env\<close>, after \<open>dotenv\<close> has loaded the \<open>.env\<close> file, is a map from names to
  strings. \<open>parseInt\<close> is the language's own function and is a parameter here; the type
  of the port is whatever it returns.
\<close>

record 'n MCPServerConfig =
  mcsmanagerUrl :: string
  apiKey :: string
  port :: 'n
  host :: string

definition defaultConfig :: "(string \<Rightarrow> 'n) \<Rightarrow> (string \<rightharpoonup> string) \<Rightarrow> 'n MCPServerConfig" where
  "defaultConfig parseInt env =
     \<lparr> mcsmanagerUrl = or_default (env ''MCSMANAGER_URL'') ''http://localhost:23333'',
       apiKey = or_default (env ''MCSMANAGER_API_KEY'') '''',
       port = parseInt (or_default (env ''MCP_PORT'') ''3000''),
       host = or_default (env ''MCP_HOST'') ''localhost'' \<rparr>"

definition getConfig :: "(string \<Rightarrow> 'n) \<Rightarrow> (string \<rightharpoonup> string) \<Rightarrow> 'n MCPServerConfig" where
  "getConfig parseInt env = defaultConfig parseInt env"

text \<open>
  What \<open>main\<close> does to the outside world, in order. \<open>process.exit\<close> ends the process, so
  nothing follows a \<open>ProcessExit\<close>. \<open>NewServer\<close> is the construction of
  \<open>MCSManagerMCPServer\<close>, \<open>Listen\<close> the call of \<open>app.listen\<close> in \<open>start\<close>. What happens
  once the credential check has passed is up to the libraries: the constructor may throw,
  \<open>listen\<close> may throw (the promise of \<open>start\<close> is then rejected), the listener may be
  bound (the callback of \<open>listen\<close> prints and resolves the promise) or never call back.
\<close>

datatype startup = ConstructorThrows thrown | ListenThrows thrown | Bound | Pending

datatype 'n effect =
    ConsoleError string
  | ConsoleErrorWith string thrown
  | ConsoleLog string
  | ProcessExit int
  | NewServer "'n MCPServerConfig"
  | Listen 'n string

definition main :: "(string \<Rightarrow> 'n) \<Rightarrow> ('n \<Rightarrow> string) \<Rightarrow> (string \<rightharpoonup> string) \<Rightarrow> startup \<Rightarrow> 'n effect list" where
  "main parseInt showPort env startup =
     (let config = getConfig parseInt env in
      if apiKey config = [] then
        [ConsoleError ''Error: MCSMANAGER_API_KEY environment variable is not set'',
         ProcessExit 1]
      else
        (case startup of
           ConstructorThrows e \<Rightarrow>
             [ConsoleErrorWith ''Failed to start MCSManager MCP Server:'' e, ProcessExit 1]
         | ListenThrows e \<Rightarrow>
             [NewServer config, Listen (port config) (host config),
              ConsoleErrorWith ''Failed to start MCSManager MCP Server:'' e, ProcessExit 1]
         | Bound \<Rightarrow>
             [NewServer config, Listen (port config) (host config),
              ConsoleLog (''MCSManager MCP Server is running at http://'' @ host config @ '':''
                          @ showPort (port config) @ ''/mcp''),
              ConsoleLog ''MCSManager MCP Server started successfully'']
         | Pending \<Rightarrow>
             [NewServer config, Listen (port config) (host config)]))"

fun opens_server :: "'n effect \<Rightarrow> bool" where
  "opens_server (NewServer c) = True"
| "opens_server (Listen p h) = True"
| "opens_server e = False"

section \<open>Upstream client (api/mcsmanager-api.ts)\<close>

text \<open>
  The class holds an HTTP client created with the base URL and two fixed headers, and the
  API key. A request is what a method hands to that client: the verb, the URL relative to
  the base URL, and the body if there is one. The client itself (axios) is a parameter:
  it answers a request with a response object, or rejects.
\<close>

record MCSManagerAPI =
  baseURL :: string
  api_apiKey :: string

datatype http_verb = HttpGet | HttpPost | HttpPut

datatype payload =
    InstanceRefs "(string \<times> string) list"
  | Target string
  | TargetText string string

record http_request =
  req_baseURL :: string
  req_headers :: "(string \<times> string) list"
  verb :: http_verb
  url :: string
  req_body :: "payload option"

record 'b axios_response =
  axios_status :: int
  axios_data :: 'b

type_synonym 'b client = "http_request \<Rightarrow> 'b axios_response outcome"

definition client_request :: "MCSManagerAPI \<Rightarrow> http_verb \<Rightarrow> string \<Rightarrow> payload option \<Rightarrow> http_request" where
  "client_request api v u b =
     \<lparr> req_baseURL = baseURL api,
       req_headers = [(''Content-Type'', ''application/json; charset=utf-8''),
                      (''X-Requested-With'', ''XMLHttpRequest'')],
       verb = v, url = u, req_body = b \<rparr>"

text \<open>
  Every method is \<open>const response = await this.client.verb(url, body); return response.data\<close>.
  The result is paired with the requests that were handed to the client. The methods are
  \<open>async\<close>: when building the URL throws, no request is handed to the client and the
  method rejects with what was thrown.
\<close>

definition perform :: "'b client \<Rightarrow> http_request \<Rightarrow> http_request list \<times> 'b outcome" where
  "perform client req =
     ([req], case client req of
               Resolves response \<Rightarrow> Resolves (axios_data response)
             | Rejects e \<Rightarrow> Rejects e)"

text \<open>
  \<open>encodeURIComponent\<close>, as the language defines it: a code unit that is one of the
  unreserved characters stands for itself; any other code point is written as the octets
  of its UTF-8 form, each as \<open>%\<close> and two upper-case hexadecimal digits; a surrogate
  without its partner makes the function throw a \<open>URIError\<close>.
\<close>

definition unreserved :: "char \<Rightarrow> bool" where
  "unreserved c =
     (c \<in> set ''ABCDEFGHIJKLMNOPQRSTUVWXYZabcdefghijklmnopqrstuvwxyz0123456789-_.!~*()''
      \<or> c = CHR 0x27)"

definition unreserved_unit :: "16 word \<Rightarrow> bool" where
  "unreserved_unit u = (unat u < 128 \<and> unreserved (char_of (unat u)))"

definition leading_surrogate :: "16 word \<Rightarrow> bool" where
  "leading_surrogate u = (0xD800 \<le> unat u \<and> unat u \<le> 0xDBFF)"

definition trailing_surrogate :: "16 word \<Rightarrow> bool" where
  "trailing_surrogate u = (0xDC00 \<le> unat u \<and> unat u \<le> 0xDFFF)"

definition surrogate_pair :: "16 word \<Rightarrow> 16 word \<Rightarrow> nat" where
  "surrogate_pair lead trail = 0x10000 + (unat lead - 0xD800) * 0x400 + (unat trail - 0xDC00)"

definition utf8 :: "nat \<Rightarrow> nat list" where
  "utf8 cp =
     (if cp < 0x80 then [cp]
      else if cp < 0x800 then [0xC0 + cp div 64, 0x80 + cp mod 64]
      else if cp < 0x10000 then [0xE0 + cp div 4096, 0x80 + cp div 64 mod 64, 0x80 + cp mod 64]
      else [0xF0 + cp div 262144, 0x80 + cp div 4096 mod 64, 0x80 + cp div 64 mod 64,
            0x80 + cp mod 64])"

definition percent :: "nat \<Rightarrow> string" where
  "percent octet = [CHR ''%'', digit_char (octet div 16 mod 16), digit_char (octet mod 16)]"

definition URIError :: thrown where
  "URIError = ErrorObj ''URI malformed''"

fun encodeURIComponent :: "js_string \<Rightarrow> thrown + string" where
  "encodeURIComponent [] = Inr []"
| "encodeURIComponent [u] =
     (if unreserved_unit u then Inr [char_of (unat u)]
      else if leading_surrogate u \<or> trailing_surrogate u then Inl URIError
      else Inr (concat (map percent (utf8 (unat u)))))"
| "encodeURIComponent (u # v # rest) =
     (if unreserved_unit u then
        (case encodeURIComponent (v # rest) of
           Inl e \<Rightarrow> Inl e
         | Inr r \<Rightarrow> Inr (char_of (unat u) # r))
      else if leading_surrogate u then
        (if trailing_surrogate v then
           (case encodeURIComponent rest of
              Inl e \<Rightarrow> Inl e
            | Inr r \<Rightarrow> Inr (concat (map percent (utf8 (surrogate_pair u v))) @ r))
         else Inl URIError)
      else if trailing_surrogate u then Inl URIError
      else
        (case encodeURIComponent (v # rest) of
           Inl e \<Rightarrow> Inl e
         | Inr r \<Rightarrow> Inr (concat (map percent (utf8 (unat u))) @ r)))"

text \<open>
  A parameter with a default value: the default applies when the argument is left out.
  The page and the page size are numbers (\<open>JNum\<close>, or \<open>JOther\<close> for the numbers that are
  not printed digit by digit); the template literal converts them with \<open>to_string\<close>.
\<close>

definition arg_or :: "'a option \<Rightarrow> 'a \<Rightarrow> 'a" where
  "arg_or a d = (case a of None \<Rightarrow> d | Some v \<Rightarrow> v)"

definition getDaemons :: "MCSManagerAPI \<Rightarrow> 'b client \<Rightarrow> http_request list \<times> 'b outcome" where
  "getDaemons api client =
     perform client (client_request api HttpGet
       (''/api/service/remote_services_system?apikey='' @ api_apiKey api) None)"

definition getInstances ::
  "MCSManagerAPI \<Rightarrow> 'b client \<Rightarrow> string \<Rightarrow> jsval option \<Rightarrow> jsval option
   \<Rightarrow> http_request list \<times> 'b outcome" where
  "getInstances api client daemonId page pageSize =
     perform client (client_request api HttpGet
       (''/api/service/remote_service_instances?daemonId='' @ daemonId
        @ ''&page='' @ to_string (arg_or page (JNum 1))
        @ ''&page_size='' @ to_string (arg_or pageSize (JNum 10))
        @ ''&apikey='' @ api_apiKey api @ ''&instance_name=&status=&tag=[]'') None)"

definition getInstanceDetail ::
  "MCSManagerAPI \<Rightarrow> 'b client \<Rightarrow> string \<Rightarrow> string \<Rightarrow> http_request list \<times> 'b outcome" where
  "getInstanceDetail api client instanceUuid daemonId =
     perform client (client_request api HttpGet
       (''/api/instance?uuid='' @ instanceUuid @ ''&daemonId='' @ daemonId
        @ ''&apikey='' @ api_apiKey api) None)"

definition startInstance ::
  "MCSManagerAPI \<Rightarrow> 'b client \<Rightarrow> string \<Rightarrow> string \<Rightarrow> http_request list \<times> 'b outcome" where
  "startInstance api client instanceUuid daemonId =
     perform client (client_request api HttpPost
       (''/api/instance/multi_start?apikey='' @ api_apiKey api)
       (Some (InstanceRefs [(instanceUuid, daemonId)])))"

definition stopInstance ::
  "MCSManagerAPI \<Rightarrow> 'b client \<Rightarrow> string \<Rightarrow> string \<Rightarrow> http_request list \<times> 'b outcome" where
  "stopInstance api client instanceUuid daemonId =
     perform client (client_request api HttpPost
       (''/api/instance/multi_stop?apikey='' @ api_apiKey api)
       (Some (InstanceRefs [(instanceUuid, daemonId)])))"

definition restartInstance ::
  "MCSManagerAPI \<Rightarrow> 'b client \<Rightarrow> string \<Rightarrow> string \<Rightarrow> http_request list \<times> 'b outcome" where
  "restartInstance api client instanceUuid daemonId =
     perform client (client_request api HttpPost
       (''/api/instance/multi_restart?apikey='' @ api_apiKey api)
       (Some (InstanceRefs [(instanceUuid, daemonId)])))"

definition killInstance ::
  "MCSManagerAPI \<Rightarrow> 'b client \<Rightarrow> string \<Rightarrow> string \<Rightarrow> http_request list \<times> 'b outcome" where
  "killInstance api client instanceUuid daemonId =
     perform client (client_request api HttpPost
       (''/api/instance/multi_kill?apikey='' @ api_apiKey api)
       (Some (InstanceRefs [(instanceUuid, daemonId)])))"

definition sendCommand ::
  "MCSManagerAPI \<Rightarrow> 'b client \<Rightarrow> string \<Rightarrow> string \<Rightarrow> js_string
   \<Rightarrow> http_request list \<times> 'b outcome" where
  "sendCommand api client instanceUuid daemonId command =
     (case encodeURIComponent command of
        Inl e \<Rightarrow> ([], Rejects e)
      | Inr encoded \<Rightarrow>
          perform client (client_request api HttpGet
            (''/api/protected_instance/command?uuid='' @ instanceUuid @ ''&daemonId='' @ daemonId
             @ ''&command='' @ encoded
             @ ''&apikey='' @ api_apiKey api) None))"

definition getFileList ::
  "MCSManagerAPI \<Rightarrow> 'b client \<Rightarrow> string \<Rightarrow> string \<Rightarrow> js_string option
   \<Rightarrow> jsval option \<Rightarrow> jsval option \<Rightarrow> http_request list \<times> 'b outcome" where
  "getFileList api client instanceUuid daemonId target page pageSize =
     (case encodeURIComponent (arg_or target []) of
        Inl e \<Rightarrow> ([], Rejects e)
      | Inr encoded \<Rightarrow>
          perform client (client_request api HttpGet
            (''/api/files/list?uuid='' @ instanceUuid @ ''&daemonId='' @ daemonId
             @ ''&target='' @ encoded
             @ ''&page='' @ to_string (arg_or page (JNum 0))
             @ ''&page_size='' @ to_string (arg_or pageSize (JNum 100))
             @ ''&apikey='' @ api_apiKey api) None))"

definition getFileContent ::
  "MCSManagerAPI \<Rightarrow> 'b client \<Rightarrow> string \<Rightarrow> string \<Rightarrow> string \<Rightarrow> http_request list \<times> 'b outcome" where
  "getFileContent api client instanceUuid daemonId target =
     perform client (client_request api HttpPut
       (''/api/files/?uuid='' @ instanceUuid @ ''&daemonId='' @ daemonId
        @ ''&apikey='' @ api_apiKey api)
       (Some (Target target)))"

definition updateFileContent ::
  "MCSManagerAPI \<Rightarrow> 'b client \<Rightarrow> string \<Rightarrow> string \<Rightarrow> string \<Rightarrow> string
   \<Rightarrow> http_request list \<times> 'b outcome" where
  "updateFileContent api client instanceUuid daemonId target text =
     perform client (client_request api HttpPut
       (''/api/files/?uuid='' @ instanceUuid @ ''&daemonId='' @ daemonId
        @ ''&apikey='' @ api_apiKey api)
       (Some (TargetText target text)))"

definition getUsers ::
  "MCSManagerAPI \<Rightarrow> 'b client \<Rightarrow> jsval option \<Rightarrow> jsval option \<Rightarrow> http_request list \<times> 'b outcome" where
  "getUsers api client page pageSize =
     perform client (client_request api HttpGet
       (''/api/auth/list?page='' @ to_string (arg_or page (JNum 1))
        @ ''&page_size='' @ to_string (arg_or pageSize (JNum 20))
        @ ''&apikey='' @ api_apiKey api) None)"

definition getOverview :: "MCSManagerAPI \<Rightarrow> 'b client \<Rightarrow> http_request list \<times> 'b outcome" where
  "getOverview api client =
     perform client (client_request api HttpGet
       (''/api/overview?apikey='' @ api_apiKey api) None)"

text \<open>
  A call of one of the thirteen methods, with its arguments, so that a statement can
  range over all of them.
\<close>

datatype api_call =
    GetDaemons
  | GetInstances string "jsval option" "jsval option"
  | GetInstanceDetail string string
  | StartInstance string string
  | StopInstance string string
  | RestartInstance string string
  | KillInstance string string
  | SendCommand string string js_string
  | GetFileList string string "js_string option" "jsval option" "jsval option"
  | GetFileContent string string string
  | UpdateFileContent string string string string
  | GetUsers "jsval option" "jsval option"
  | GetOverview

fun invoke :: "MCSManagerAPI \<Rightarrow> 'b client \<Rightarrow> api_call \<Rightarrow> http_request list \<times> 'b outcome" where
  "invoke api client GetDaemons = getDaemons api client"
| "invoke api client (GetInstances d p s) = getInstances api client d p s"
| "invoke api client (GetInstanceDetail i d) = getInstanceDetail api client i d"
| "invoke api client (StartInstance i d) = startInstance api client i d"
| "invoke api client (StopInstance i d) = stopInstance api client i d"
| "invoke api client (RestartInstance i d) = restartInstance api client i d"
| "invoke api client (KillInstance i d) = killInstance api client i d"
| "invoke api client (SendCommand i d c) = sendCommand api client i d c"
| "invoke api client (GetFileList i d t p s) = getFileList api client i d t p s"
| "invoke api client (GetFileContent i d t) = getFileContent api client i d t"
| "invoke api client (UpdateFileContent i d t x) = updateFileContent api client i d t x"
| "invoke api client (GetUsers p s) = getUsers api client p s"
| "invoke api client GetOverview = getOverview api client"

section \<open>Tool handlers (server.ts, registerTools)\<close>

text \<open>
  A handler returns \<open>{content: [{type: "text", text: ...}], isError?: true}\<close>. The text is
  either a string the handler builds itself, or \<open>JSON.stringify(p, null, 2)\<close> of a
  projection \<open>p\<close> (\<open>JsonBlock p\<close>; the serialiser is the language's own). A result
  without the \<open>isError\<close> property has \<open>isError = False\<close>.

  What the API methods return is the decoded body of the panel's answer. The handlers
  read its \<open>status\<close> and \<open>data\<close> properties. A body on which reading a property throws
  (\<open>null\<close>) takes a handler to its \<open>catch\<close> block with a \<open>TypeError\<close>, as a rejected
  call does with its error, and is covered by \<open>Rejects\<close>.
\<close>

datatype 'p block = TextBlock string | JsonBlock 'p

record 'p tool_result =
  content :: "'p block list"
  isError :: bool

record 'd envelope =
  status :: jsval
  data :: 'd

definition error_result :: "string \<Rightarrow> thrown \<Rightarrow> 'p tool_result" where
  "error_result prefix error = \<lparr> content = [TextBlock (prefix @ error_text error)], isError = True \<rparr>"

text \<open>
  The body of a \<open>try\<close> block is a computation that ends with a value (\<open>Inr\<close>) or with a
  thrown value (\<open>Inl\<close>); \<open>catch\<close> turns the latter into an error-marked result.
\<close>

definition catch :: "thrown + 'p tool_result \<Rightarrow> string \<Rightarrow> 'p tool_result" where
  "catch attempt prefix = (case attempt of Inr result \<Rightarrow> result | Inl error \<Rightarrow> error_result prefix error)"

subsection \<open>start-instance\<close>

definition start_instance_tool ::
  "MCSManagerAPI \<Rightarrow> ('d envelope) client \<Rightarrow> string \<Rightarrow> string \<Rightarrow> http_request list \<times> unit tool_result" where
  "start_instance_tool api client daemonId instanceId =
     (let (calls, answer) = startInstance api client instanceId daemonId in
      (calls,
       catch (case answer of
                Rejects e \<Rightarrow> Inl e
              | Resolves response \<Rightarrow>
                  if status response \<noteq> JNum 200
                  then Inl (ErrorObj (''Failed to start instance: '' @ to_string (status response)))
                  else Inr \<lparr> content = [TextBlock (''Successfully started instance '' @ instanceId)],
                             isError = False \<rparr>)
             ''Error starting instance: ''))"

subsection \<open>get-files\<close>

record file_item =
  file_name :: jsval
  file_size :: jsval
  file_time :: jsval
  file_type :: jsval
  file_mode :: jsval

record file_list =
  absolutePath :: jsval
  items :: "file_item list"

record file_info =
  info_name :: jsval
  info_size :: jsval
  info_time :: jsval
  info_type :: string
  info_mode :: jsval

record files_info =
  path :: jsval
  files :: "file_info list"

definition project_file :: "file_item \<Rightarrow> file_info" where
  "project_file file =
     \<lparr> info_name = file_name file,
       info_size = file_size file,
       info_time = file_time file,
       info_type = (if file_type file = JNum 0 then ''directory'' else ''file''),
       info_mode = file_mode file \<rparr>"

definition get_files_tool ::
  "MCSManagerAPI \<Rightarrow> (file_list envelope) client \<Rightarrow> string \<Rightarrow> string \<Rightarrow> js_string option
   \<Rightarrow> http_request list \<times> files_info tool_result" where
  "get_files_tool api client daemonId instanceId path_arg =
     (let targetPath = or_default path_arg [];
          (calls, answer) = getFileList api client instanceId daemonId (Some targetPath) None None in
      (calls,
       catch (case answer of
                Rejects e \<Rightarrow> Inl e
              | Resolves response \<Rightarrow>
                  if status response \<noteq> JNum 200
                  then Inl (ErrorObj (''Failed to get file list: '' @ to_string (status response)))
                  else
                    let fileList = data response;
                        filesInfo = \<lparr> path = absolutePath fileList,
                                      files = map project_file (items fileList) \<rparr>
                    in Inr \<lparr> content = [JsonBlock filesInfo], isError = False \<rparr>)
             ''Error fetching files: ''))"

subsection \<open>get-file-content\<close>

text \<open>
  The argument is a string, or \<open>undefined\<close> (\<open>None\<close>) when it is left out; \<open>!filePath\<close>
  holds for \<open>undefined\<close> and for the empty string.
\<close>

definition get_file_content_tool ::
  "MCSManagerAPI \<Rightarrow> (string envelope) client \<Rightarrow> string \<Rightarrow> string \<Rightarrow> string option
   \<Rightarrow> http_request list \<times> unit tool_result" where
  "get_file_content_tool api client daemonId instanceId filePath =
     (case filePath of
        None \<Rightarrow> ([], catch (Inl (ErrorObj ''File path is required'')) ''Error fetching file content: '')
      | Some fp \<Rightarrow>
          if fp = [] then
            ([], catch (Inl (ErrorObj ''File path is required'')) ''Error fetching file content: '')
          else
            let (calls, answer) = getFileContent api client instanceId daemonId fp in
            (calls,
             catch (case answer of
                      Rejects e \<Rightarrow> Inl e
                    | Resolves response \<Rightarrow>
                        if status response \<noteq> JNum 200
                        then Inl (ErrorObj (''Failed to get file content: '' @ to_string (status response)))
                        else Inr \<lparr> content = [TextBlock (data response)], isError = False \<rparr>)
                   ''Error fetching file content: ''))"

subsection \<open>get-instances\<close>

text \<open>
  \<open>createDatetime\<close> is a number of milliseconds. \<open>new Date(n).toISOString()\<close> throws a
  \<open>RangeError\<close> when \<open>n\<close> is outside the range of dates; otherwise it is the ISO text of
  that instant, which \<open>IsoString n\<close> stands for.
\<close>

record instance_config =
  nickname :: jsval
  config_type :: jsval
  startCommand :: jsval
  stopCommand :: jsval
  cwd :: jsval
  createDatetime :: int

record instance_entry =
  instanceUuid :: jsval
  config :: instance_config
  instance_status :: jsval
  processInfo :: jsval


datatype iso_date = IsoString int

record instance_info =
  info_id :: jsval
  info_nickname :: jsval
  info_status :: string
  info_config_type :: jsval
  info_startCommand :: jsval
  info_stopCommand :: jsval
  info_cwd :: jsval
  info_processInfo :: jsval
  info_created :: iso_date






section \<open>Session router (server.ts, start)\<close>

subsection \<open>The table of transports\<close>

text \<open>
  \<open>this.transports\<close> is an ordinary object (\<open>{}\<close>) used as a dictionary from session ids
  to transports. Reading \<open>this.transports[key]\<close> yields the object's own property of that
  name if it has one, otherwise the property of that name of \<open>Object.prototype\<close> if there
  is one (a function or an object, never a transport, and truthy), otherwise \<open>undefined\<close>.
  The own properties are a map; a transport is referred to by the order of its
  construction.
\<close>

definition object_prototype_properties :: "string list" where
  "object_prototype_properties =
     [''constructor'', ''__defineGetter__'', ''__defineSetter__'', ''hasOwnProperty'',
      ''__lookupGetter__'', ''__lookupSetter__'', ''isPrototypeOf'', ''propertyIsEnumerable'',
      ''toString'', ''valueOf'', ''__proto__'', ''toLocaleString'']"

datatype 'a property = Own 'a | Inherited | Missing

definition get_property :: "(string \<rightharpoonup> 'a) \<Rightarrow> string \<Rightarrow> 'a property" where
  "get_property own key =
     (case own key of
        Some v \<Rightarrow> Own v
      | None \<Rightarrow> if key \<in> set object_prototype_properties then Inherited else Missing)"

text \<open>
  The state of the router: the own properties of \<open>this.transports\<close>, the number of
  transports constructed so far (the next one gets that number), and for each transport
  its \<open>sessionId\<close> property, which the transport sets itself. \<open>issued\<close> is not in the
  source: it records every id that a transport's \<open>sessionIdGenerator\<close> (\<open>randomUUID\<close>)
  has returned, oldest first.
\<close>

record router =
  transports :: "string \<rightharpoonup> nat"
  transport_sessionId :: "nat \<rightharpoonup> string"
  constructed :: nat
  issued :: "string list"

definition initial_router :: router where
  "initial_router =
     \<lparr> transports = Map.empty, transport_sessionId = Map.empty, constructed = 0, issued = [] \<rparr>"

subsection \<open>The two callbacks given to a transport\<close>

definition onsessioninitialized :: "nat \<Rightarrow> string \<Rightarrow> router \<Rightarrow> router" where
  "onsessioninitialized transport sessionId r =
     r\<lparr> transports := (transports r)(sessionId \<mapsto> transport) \<rparr>"

definition onclose :: "nat \<Rightarrow> router \<Rightarrow> router" where
  "onclose transport r =
     (case transport_sessionId r transport of
        None \<Rightarrow> r
      | Some sid \<Rightarrow> if sid = [] then r else r\<lparr> transports := (transports r)(sid := None) \<rparr>)"

text \<open>
  What a transport does while it handles a request is the library's business. Towards the
  router it can do two things, any number of times: start a session (it calls its
  \<open>sessionIdGenerator\<close>, stores the id in its \<open>sessionId\<close> property and calls
  \<open>onsessioninitialized\<close> with it), and close (it calls \<open>onclose\<close>). The list of these
  events is a parameter of every request that reaches a transport. The generator is
  \<open>randomUUID\<close>, whose ids are strings of 36 characters; for such a key the assignment in
  \<open>onsessioninitialized\<close> creates or overwrites an own property of the table.
\<close>

datatype transport_event = SessionInitialized string | Closed

fun transport_step :: "nat \<Rightarrow> transport_event \<Rightarrow> router \<Rightarrow> router" where
  "transport_step transport (SessionInitialized sid) r =
     onsessioninitialized transport sid
       (r\<lparr> transport_sessionId := (transport_sessionId r)(transport \<mapsto> sid),
           issued := issued r @ [sid] \<rparr>)"
| "transport_step transport Closed r = onclose transport r"

definition handleRequest :: "nat \<Rightarrow> transport_event list \<Rightarrow> router \<Rightarrow> router" where
  "handleRequest transport events r = fold (transport_step transport) events r"

subsection \<open>The three routes\<close>

text \<open>
  Of a request the routes read the \<open>mcp-session-id\<close> header (\<open>None\<close> when the request has
  none) and, for POST, the decoded body: \<open>body_method\<close> is \<open>None\<close> when \<open>req.body\<close> is
  falsy, and otherwise what \<open>req.body.method\<close> reads.
\<close>

record request =
  session_header :: "string option"
  body_method :: "jsval option"

record jsonrpc_error =
  jsonrpc :: string
  error_code :: int
  error_message :: string
  id :: jsval

datatype reply =
    JsonReply int jsonrpc_error
  | SendReply int string
  | HandledBy nat
  | Uncaught thrown

text \<open>
  \<open>JsonReply\<close> is \<open>res.status(s).json(b)\<close> and \<open>SendReply\<close> is \<open>res.status(s).send(t)\<close>.
  \<open>HandledBy t\<close>: the request was passed to \<open>handleRequest\<close> of transport \<open>t\<close>, which
  writes the response. \<open>Uncaught e\<close>: the route threw \<open>e\<close> and wrote no response.
\<close>

definition no_valid_session :: reply where
  "no_valid_session =
     JsonReply 400 \<lparr> jsonrpc = ''2.0'', error_code = - 32000,
                     error_message = ''Bad Request: No valid session ID provided'',
                     id = JNull \<rparr>"

definition invalid_or_missing :: reply where
  "invalid_or_missing = SendReply 400 ''Invalid or missing session ID''"

definition not_a_function :: reply where
  "not_a_function = Uncaught (ErrorObj ''transport.handleRequest is not a function'')"

text \<open>A header value as a condition: \<open>undefined\<close> and the empty string are falsy.\<close>

definition truthy :: "string option \<Rightarrow> string option" where
  "truthy h = (case h of None \<Rightarrow> None | Some s \<Rightarrow> if s = [] then None else Some s)"

definition is_initialize :: "jsval option \<Rightarrow> bool" where
  "is_initialize b = (case b of None \<Rightarrow> False | Some m \<Rightarrow> m = JStr ''initialize'')"

text \<open>
  POST: with a truthy header, the first condition holds when the table read is truthy,
  and the second condition fails; with a falsy header, the first condition fails and the
  second one decides.
\<close>

definition post_mcp :: "request \<Rightarrow> transport_event list \<Rightarrow> router \<Rightarrow> reply \<times> router" where
  "post_mcp req events r =
     (case truthy (session_header req) of
        Some sessionId \<Rightarrow>
          (case get_property (transports r) sessionId of
             Own transport \<Rightarrow> (HandledBy transport, handleRequest transport events r)
           | Inherited \<Rightarrow> (not_a_function, r)
           | Missing \<Rightarrow> (no_valid_session, r))
      | None \<Rightarrow>
          if is_initialize (body_method req) then
            let transport = constructed r;
                r' = r\<lparr> constructed := Suc (constructed r) \<rparr>
            in (HandledBy transport, handleRequest transport events r')
          else (no_valid_session, r))"

definition handleSessionRequest :: "string option \<Rightarrow> transport_event list \<Rightarrow> router \<Rightarrow> reply \<times> router" where
  "handleSessionRequest header events r =
     (case truthy header of
        None \<Rightarrow> (invalid_or_missing, r)
      | Some sessionId \<Rightarrow>
          (case get_property (transports r) sessionId of
             Missing \<Rightarrow> (invalid_or_missing, r)
           | Own transport \<Rightarrow> (HandledBy transport, handleRequest transport events r)
           | Inherited \<Rightarrow> (not_a_function, r)))"

subsection \<open>Runs of the router\<close>

text \<open>
  A run is a sequence of requests, each with what the transport that receives it does, and
  of closures that a transport signals outside a request (a client that disconnects).
\<close>

datatype step =
    PostMcp request "transport_event list"
  | GetMcp "string option" "transport_event list"
  | DeleteMcp "string option" "transport_event list"
  | TransportCloses nat

fun router_step :: "step \<Rightarrow> router \<Rightarrow> router" where
  "router_step (PostMcp req events) r = snd (post_mcp req events r)"
| "router_step (GetMcp header events) r = snd (handleSessionRequest header events r)"
| "router_step (DeleteMcp header events) r = snd (handleSessionRequest header events r)"
| "router_step (TransportCloses transport) r =
     (if transport < constructed r then onclose transport r else r)"

definition run :: "step list \<Rightarrow> router \<Rightarrow> router" where
  "run steps r = fold router_step steps r"

section \<open>Notions used in the statements\<close>

text \<open>
  The ids that a list of transport events draws from the generator, in order.
\<close>

fun drawn :: "transport_event list \<Rightarrow> string list" where
  "drawn [] = []"
| "drawn (SessionInitialized sid # es) = sid # drawn es"
| "drawn (Closed # es) = drawn es"

text \<open>
  The invariant of the router: every key of the table and every \<open>sessionId\<close> of a
  transport is an id that was issued, both belong to transports that were constructed, and
  no two transports have the same \<open>sessionId\<close>.
\<close>

definition sessions_distinct :: "router \<Rightarrow> bool" where
  "sessions_distinct r =
     ((\<forall>sid t. transports r sid = Some t \<longrightarrow> sid \<in> set (issued r) \<and> t < constructed r)
    \<and> (\<forall>t sid. transport_sessionId r t = Some sid \<longrightarrow> sid \<in> set (issued r) \<and> t < constructed r)
    \<and> (\<forall>t1 t2 sid. transport_sessionId r t1 = Some sid \<and> transport_sessionId r t2 = Some sid
           \<longrightarrow> t1 = t2))"

text \<open>
  The ids that the transports of a run may draw, step by step, as the run gives them.
\<close>

fun step_draws :: "step \<Rightarrow> string list" where
  "step_draws (PostMcp req events) = drawn events"
| "step_draws (GetMcp header events) = drawn events"
| "step_draws (DeleteMcp header events) = drawn events"
| "step_draws (TransportCloses t) = []"

definition draws :: "step list \<Rightarrow> string list" where
  "draws steps = concat (map step_draws steps)"

text \<open>
  The query of a URL is what stands between the first \<open>?\<close> and the fragment, which
  begins at the first \<open>#\<close>; its parameters are separated by \<open>&\<close>. A URL carries the key
  as its \<open>apikey\<close> query parameter when \<open>apikey=\<close> followed by the key is one of them.
\<close>

definition query_of :: "string \<Rightarrow> string" where
  "query_of u = drop 1 (dropWhile (\<lambda>c. c \<noteq> CHR ''?'') (takeWhile (\<lambda>c. c \<noteq> CHR ''#'') u))"

fun split_on :: "char \<Rightarrow> string \<Rightarrow> string list" where
  "split_on c [] = [[]]"
| "split_on c (x # xs) =
     (if x = c then [] # split_on c xs
      else (case split_on c xs of [] \<Rightarrow> [[x]] | p # ps \<Rightarrow> (x # p) # ps))"

definition apikey_parameter :: "string \<Rightarrow> string \<Rightarrow> bool" where
  "apikey_parameter key u = (''apikey='' @ key \<in> set (split_on CHR ''&'' (query_of u)))"

text \<open>
  The strings that a method splices into its URL as they are, and the argument that it
  passes through \<open>encodeURIComponent\<close>, if there is one.
\<close>

fun spliced :: "api_call \<Rightarrow> string list" where
  "spliced GetDaemons = []"
| "spliced (GetInstances d p s) =
     [d, to_string (arg_or p (JNum 1)), to_string (arg_or s (JNum 10))]"
| "spliced (GetInstanceDetail i d) = [i, d]"
| "spliced (StartInstance i d) = []"
| "spliced (StopInstance i d) = []"
| "spliced (RestartInstance i d) = []"
| "spliced (KillInstance i d) = []"
| "spliced (SendCommand i d c) = [i, d]"
| "spliced (GetFileList i d t p s) =
     [i, d, to_string (arg_or p (JNum 0)), to_string (arg_or s (JNum 100))]"
| "spliced (GetFileContent i d t) = [i, d]"
| "spliced (UpdateFileContent i d t x) = [i, d]"
| "spliced (GetUsers p s) = [to_string (arg_or p (JNum 1)), to_string (arg_or s (JNum 20))]"
| "spliced GetOverview = []"

fun encoded_argument :: "api_call \<Rightarrow> js_string" where
  "encoded_argument (SendCommand i d c) = c"
| "encoded_argument (GetFileList i d t p s) = arg_or t []"
| "encoded_argument call = []"

text \<open>The instances that a result of get-instances lists.\<close>

fun block_instances :: "(instance_info list) block \<Rightarrow> instance_info list" where
  "block_instances (JsonBlock xs) = xs"
| "block_instances (TextBlock t) = []"

definition listed :: "(instance_info list) tool_result \<Rightarrow> instance_info list" where
  "listed result = concat (map block_instances (content result))"

section \<open>Sample data\<close>

definition sample_api :: MCSManagerAPI where
  "sample_api = \<lparr> baseURL = ''http://localhost:23333'', api_apiKey = ''k'' \<rparr>"




text \<open>A panel that answers every request with the given status in the body and no data.\<close>

definition panel_status :: "int \<Rightarrow> (unit envelope) client" where
  "panel_status s =
     (\<lambda>req. Resolves \<lparr> axios_status = 200, axios_data = \<lparr> status = JNum s, data = () \<rparr> \<rparr>)"

text \<open>A panel that lists one directory and one file.\<close>

definition sample_dir :: file_item where
  "sample_dir =
     \<lparr> file_name = JStr ''world'', file_size = JNum 0, file_time = JStr ''t'',
       file_type = JNum 0, file_mode = JNum 777 \<rparr>"

definition sample_file :: file_item where
  "sample_file =
     \<lparr> file_name = JStr ''server.properties'', file_size = JNum 12, file_time = JStr ''t'',
       file_type = JNum 1, file_mode = JNum 666 \<rparr>"

definition panel_files :: "(file_list envelope) client" where
  "panel_files =
     (\<lambda>req. Resolves \<lparr> axios_status = 200,
                        axios_data = \<lparr> status = JNum 200,
                                       data = \<lparr> absolutePath = JStr ''/'',
                                                items = [sample_dir, sample_file] \<rparr> \<rparr> \<rparr>)"

text \<open>Two session ids as \<open>randomUUID\<close> produces them, and a router with one session.\<close>

definition uuid_a :: string where
  "uuid_a = ''3b241101-e2bb-4255-8caf-4136c566a962''"

definition uuid_b :: string where
  "uuid_b = ''9f1c2d3e-0a4b-4c5d-8e6f-7a8b9c0d1e2f''"

definition initialize_request :: request where
  "initialize_request = \<lparr> session_header = None, body_method = Some (JStr ''initialize'') \<rparr>"

definition one_session :: router where
  "one_session =
     \<lparr> transports = [uuid_a \<mapsto> 0], transport_sessionId = [0 \<mapsto> uuid_a],
       constructed = 1, issued = [uuid_a] \<rparr>"

section \<open>Process start\<close>

text \<open>
  C6. When the API credential is absent from the configuration (the environment variable
  \<open>MCSMANAGER_API_KEY\<close> is unset or empty, so that \<open>config.apiKey\<close> is the empty string),
  \<open>main\<close> prints the error and exits with status 1, which is not zero; the server object
  is never constructed and \<open>listen\<close> is never called.
\<close>

theorem main_refuses_without_api_key:
  assumes "env ''MCSMANAGER_API_KEY'' = None \<or> env ''MCSMANAGER_API_KEY'' = Some []"
  shows "main parseInt showPort env startup =
           [ConsoleError ''Error: MCSMANAGER_API_KEY environment variable is not set'',
            ProcessExit 1]
         \<and> last (main parseInt showPort env startup) = ProcessExit 1
         \<and> ProcessExit 0 \<notin> set (main parseInt showPort env startup)
         \<and> filter opens_server (main parseInt showPort env startup) = []"
proof -
  from assms have "apiKey (getConfig parseInt env) = []"
    by (auto simp: getConfig_def defaultConfig_def or_default_def)
  then have "main parseInt showPort env startup =
           [ConsoleError ''Error: MCSMANAGER_API_KEY environment variable is not set'',
            ProcessExit 1]"
    by (simp add: main_def)
  then show ?thesis by simp
qed

theorem main_refuses_without_api_key_witness:
  "main (\<lambda>s. s) (\<lambda>s. s) (Map.empty(''MCP_PORT'' \<mapsto> ''8080'')) Bound =
     [ConsoleError ''Error: MCSMANAGER_API_KEY environment variable is not set'',
      ProcessExit 1]
   \<and> filter opens_server (main (\<lambda>s. s) (\<lambda>s. s) (Map.empty(''MCP_PORT'' \<mapsto> ''8080'')) Bound) = []"
proof -
  have h: "(Map.empty(''MCP_PORT'' \<mapsto> ''8080'')) ''MCSMANAGER_API_KEY'' = None
           \<or> (Map.empty(''MCP_PORT'' \<mapsto> ''8080'')) ''MCSMANAGER_API_KEY'' = Some []"
    by simp
  show ?thesis
    using h main_refuses_without_api_key
            [where env = "Map.empty(''MCP_PORT'' \<mapsto> ''8080'')" and parseInt = "\<lambda>s. s"
               and showPort = "\<lambda>s. s" and startup = Bound]
    by blast
qed

section \<open>Upstream client: at most one request per call\<close>

lemma show_int_small:
  "show_int 0 = ''0''" "show_int 1 = ''1''" "show_int 10 = ''10''" "show_int 20 = ''20''"
  "show_int 100 = ''100''" "show_int 500 = ''500''"
  by (simp_all add: show_int_def show_nat.simps digit_char_def)

lemma digit_char_hex: "d < 16 \<Longrightarrow> digit_char d \<in> set ''0123456789ABCDEF''"
  unfolding digit_char_def by (rule nth_mem) simp

lemma digit_char_mod: "digit_char (n mod 16) \<noteq> CHR ''#''"
proof -
  have "digit_char (n mod 16) \<in> set ''0123456789ABCDEF''" by (rule digit_char_hex) simp
  then show ?thesis by auto
qed

lemma percent_no_hash: "CHR ''#'' \<notin> set (percent octet)"
  using digit_char_mod [of "octet div 16"] digit_char_mod [of octet]
  by (auto simp: percent_def)

lemma percents_no_hash: "CHR ''#'' \<notin> set (concat (map percent octets))"
  using percent_no_hash by auto

lemma unreserved_no_hash: "unreserved c \<Longrightarrow> c \<noteq> CHR ''#''"
  by (auto simp: unreserved_def)

lemma encodeURIComponent_no_hash:
  "encodeURIComponent a = Inr s \<Longrightarrow> CHR ''#'' \<notin> set s"
proof (induction a arbitrary: s rule: encodeURIComponent.induct)
  case 1
  then show ?case by simp
next
  case (2 u)
  have "unreserved_unit u \<Longrightarrow> char_of (unat u) \<noteq> CHR ''#''"
    using unreserved_no_hash [of "char_of (unat u)"] by (simp add: unreserved_unit_def)
  with 2 show ?case
    using percents_no_hash [of "utf8 (unat u)"]
    by (auto split: if_splits)
next
  case (3 u v rest)
  have "unreserved_unit u \<Longrightarrow> char_of (unat u) \<noteq> CHR ''#''"
    using unreserved_no_hash [of "char_of (unat u)"] by (simp add: unreserved_unit_def)
  with 3 show ?case
    using percents_no_hash [of "utf8 (unat u)"] percents_no_hash [of "utf8 (surrogate_pair u v)"]
    by (auto split: if_splits sum.splits)
qed

lemma encodeURIComponent_throws: "encodeURIComponent a = Inl e \<Longrightarrow> e = URIError"
  by (induction a arbitrary: e rule: encodeURIComponent.induct)
     (auto split: if_splits sum.splits)

lemma encodeURIComponent_no_surrogate:
  "\<forall>u \<in> set a. \<not> leading_surrogate u \<and> \<not> trailing_surrogate u \<Longrightarrow>
   \<exists>s. encodeURIComponent a = Inr s"
proof (induction a rule: encodeURIComponent.induct)
  case 1
  then show ?case by simp
next
  case (2 u)
  then show ?case by simp
next
  case (3 u v rest)
  from "3.prems" have u: "\<not> leading_surrogate u" "\<not> trailing_surrogate u"
    and tl: "\<forall>w \<in> set (v # rest). \<not> leading_surrogate w \<and> \<not> trailing_surrogate w"
    by simp_all
  show ?case
  proof (cases "unreserved_unit u")
    case True
    from "3.IH"(1) [OF True tl] obtain r where "encodeURIComponent (v # rest) = Inr r" ..
    with True show ?thesis by simp
  next
    case False
    from "3.IH"(3) [OF False u tl] obtain r where "encodeURIComponent (v # rest) = Inr r" ..
    with False u show ?thesis by simp
  qed
qed

lemma split_on_nonempty: "split_on c xs \<noteq> []"
  by (induction xs) (auto split: list.splits)

lemma split_on_append: "split_on c (xs @ c # ys) = split_on c xs @ split_on c ys"
proof (induction xs)
  case Nil
  then show ?case by simp
next
  case (Cons x xs)
  obtain p ps where "split_on c xs = p # ps"
    using split_on_nonempty [of c xs] by (cases "split_on c xs") auto
  with Cons show ?case by simp
qed

lemma split_on_none: "c \<notin> set xs \<Longrightarrow> split_on c xs = [xs]"
  by (induction xs) auto

lemma parameter_found:
  assumes "CHR ''&'' \<notin> set p" and "B = [] \<or> (\<exists>rest. B = CHR ''&'' # rest)"
  shows "p \<in> set (split_on CHR ''&'' (p @ B))"
    and "p \<in> set (split_on CHR ''&'' (A @ CHR ''&'' # p @ B))"
proof -
  from assms(2) show first: "p \<in> set (split_on CHR ''&'' (p @ B))"
  proof
    assume "B = []"
    with assms(1) show ?thesis by (simp add: split_on_none)
  next
    assume "\<exists>rest. B = CHR ''&'' # rest"
    then obtain rest where "B = CHR ''&'' # rest" ..
    with assms(1) show ?thesis by (simp add: split_on_append split_on_none)
  qed
  then show "p \<in> set (split_on CHR ''&'' (A @ CHR ''&'' # p @ B))"
    by (simp add: split_on_append)
qed

lemma query_of_split:
  assumes "CHR ''?'' \<notin> set P" and "CHR ''#'' \<notin> set (P @ Q)"
  shows "query_of (P @ CHR ''?'' # Q) = Q"
proof -
  from assms(2) have "takeWhile (\<lambda>c. c \<noteq> CHR ''#'') (P @ CHR ''?'' # Q) = P @ CHR ''?'' # Q"
    by (auto simp: takeWhile_eq_all_conv)
  moreover from assms(1)
  have "dropWhile (\<lambda>c. c \<noteq> CHR ''?'') (P @ CHR ''?'' # Q) = CHR ''?'' # Q"
    by (induction P) auto
  ultimately have "drop 1 (dropWhile (\<lambda>c. c \<noteq> CHR ''?'')
                      (takeWhile (\<lambda>c. c \<noteq> CHR ''#'') (P @ CHR ''?'' # Q))) = Q"
    by (simp only: drop_Suc_Cons drop_0 One_nat_def)
  then show ?thesis by (simp only: query_of_def)
qed

lemma apikey_first:
  assumes "CHR ''?'' \<notin> set P" and "CHR ''#'' \<notin> set (P @ k @ B)" and "CHR ''&'' \<notin> set k"
    and "B = [] \<or> (\<exists>rest. B = CHR ''&'' # rest)"
  shows "apikey_parameter k (P @ CHR ''?'' # ''apikey='' @ k @ B)"
proof -
  from assms(2) have "CHR ''#'' \<notin> set (P @ (''apikey='' @ k @ B))" by simp
  with assms(1) have "query_of (P @ CHR ''?'' # (''apikey='' @ k @ B)) = ''apikey='' @ k @ B"
    by (rule query_of_split)
  moreover from assms(3) have "CHR ''&'' \<notin> set (''apikey='' @ k)" by simp
  from parameter_found(1) [OF this assms(4)]
  have "''apikey='' @ k \<in> set (split_on CHR ''&'' ((''apikey='' @ k) @ B))" .
  ultimately show ?thesis by (simp add: apikey_parameter_def)
qed

lemma apikey_later:
  assumes "CHR ''?'' \<notin> set P" and "CHR ''#'' \<notin> set (P @ A @ k @ B)" and "CHR ''&'' \<notin> set k"
    and "B = [] \<or> (\<exists>rest. B = CHR ''&'' # rest)"
  shows "apikey_parameter k (P @ CHR ''?'' # A @ CHR ''&'' # ''apikey='' @ k @ B)"
proof -
  from assms(2) have "CHR ''#'' \<notin> set (P @ (A @ CHR ''&'' # ''apikey='' @ k @ B))" by simp
  with assms(1)
  have "query_of (P @ CHR ''?'' # (A @ CHR ''&'' # ''apikey='' @ k @ B))
          = A @ CHR ''&'' # ''apikey='' @ k @ B"
    by (rule query_of_split)
  moreover from assms(3) have "CHR ''&'' \<notin> set (''apikey='' @ k)" by simp
  from parameter_found(2) [OF this assms(4)]
  have "''apikey='' @ k \<in> set (split_on CHR ''&'' (A @ CHR ''&'' # (''apikey='' @ k) @ B))" .
  ultimately show ?thesis by (simp add: apikey_parameter_def)
qed

lemma getDaemons_url:
  assumes "CHR ''#'' \<notin> set k" and "CHR ''&'' \<notin> set k"
  shows "apikey_parameter k (''/api/service/remote_services_system?apikey='' @ k)"
  using assms apikey_first [of "''/api/service/remote_services_system''" k "[]"] by simp

lemma getInstances_url:
  assumes "CHR ''#'' \<notin> set (k @ d @ pg @ sz)" and "CHR ''&'' \<notin> set k"
  shows "apikey_parameter k (''/api/service/remote_service_instances?daemonId='' @ d
        @ ''&page='' @ pg @ ''&page_size='' @ sz
        @ ''&apikey='' @ k @ ''&instance_name=&status=&tag=[]'')"
  using assms apikey_later [of "''/api/service/remote_service_instances''"
           "''daemonId='' @ d @ ''&page='' @ pg @ ''&page_size='' @ sz" k
           "''&instance_name=&status=&tag=[]''"]
  by simp

lemma getInstanceDetail_url:
  assumes "CHR ''#'' \<notin> set (k @ i @ d)" and "CHR ''&'' \<notin> set k"
  shows "apikey_parameter k (''/api/instance?uuid='' @ i @ ''&daemonId='' @ d @ ''&apikey='' @ k)"
  using assms apikey_later [of "''/api/instance''" "''uuid='' @ i @ ''&daemonId='' @ d" k "[]"]
  by simp

lemma multi_start_url:
  assumes "CHR ''#'' \<notin> set k" and "CHR ''&'' \<notin> set k"
  shows "apikey_parameter k (''/api/instance/multi_start?apikey='' @ k)"
  using assms apikey_first [of "''/api/instance/multi_start''" k "[]"] by simp

lemma multi_stop_url:
  assumes "CHR ''#'' \<notin> set k" and "CHR ''&'' \<notin> set k"
  shows "apikey_parameter k (''/api/instance/multi_stop?apikey='' @ k)"
  using assms apikey_first [of "''/api/instance/multi_stop''" k "[]"] by simp

lemma multi_restart_url:
  assumes "CHR ''#'' \<notin> set k" and "CHR ''&'' \<notin> set k"
  shows "apikey_parameter k (''/api/instance/multi_restart?apikey='' @ k)"
  using assms apikey_first [of "''/api/instance/multi_restart''" k "[]"] by simp

lemma multi_kill_url:
  assumes "CHR ''#'' \<notin> set k" and "CHR ''&'' \<notin> set k"
  shows "apikey_parameter k (''/api/instance/multi_kill?apikey='' @ k)"
  using assms apikey_first [of "''/api/instance/multi_kill''" k "[]"] by simp

lemma sendCommand_url:
  assumes "CHR ''#'' \<notin> set (k @ i @ d @ c)" and "CHR ''&'' \<notin> set k"
  shows "apikey_parameter k (''/api/protected_instance/command?uuid='' @ i @ ''&daemonId='' @ d
        @ ''&command='' @ c @ ''&apikey='' @ k)"
  using assms apikey_later [of "''/api/protected_instance/command''"
           "''uuid='' @ i @ ''&daemonId='' @ d @ ''&command='' @ c" k "[]"]
  by simp

lemma getFileList_url:
  assumes "CHR ''#'' \<notin> set (k @ i @ d @ t @ pg @ sz)" and "CHR ''&'' \<notin> set k"
  shows "apikey_parameter k (''/api/files/list?uuid='' @ i @ ''&daemonId='' @ d
        @ ''&target='' @ t @ ''&page='' @ pg @ ''&page_size='' @ sz @ ''&apikey='' @ k)"
  using assms apikey_later [of "''/api/files/list''"
           "''uuid='' @ i @ ''&daemonId='' @ d @ ''&target='' @ t @ ''&page='' @ pg
            @ ''&page_size='' @ sz" k "[]"]
  by simp

lemma files_url:
  assumes "CHR ''#'' \<notin> set (k @ i @ d)" and "CHR ''&'' \<notin> set k"
  shows "apikey_parameter k (''/api/files/?uuid='' @ i @ ''&daemonId='' @ d @ ''&apikey='' @ k)"
  using assms apikey_later [of "''/api/files/''" "''uuid='' @ i @ ''&daemonId='' @ d" k "[]"]
  by simp

lemma getUsers_url:
  assumes "CHR ''#'' \<notin> set (k @ pg @ sz)" and "CHR ''&'' \<notin> set k"
  shows "apikey_parameter k (''/api/auth/list?page='' @ pg @ ''&page_size='' @ sz @ ''&apikey='' @ k)"
  using assms apikey_later [of "''/api/auth/list''" "''page='' @ pg @ ''&page_size='' @ sz" k "[]"]
  by simp

lemma getOverview_url:
  assumes "CHR ''#'' \<notin> set k" and "CHR ''&'' \<notin> set k"
  shows "apikey_parameter k (''/api/overview?apikey='' @ k)"
  using assms apikey_first [of "''/api/overview''" k "[]"] by simp

lemma perform_once:
  "(safe \<Longrightarrow> apikey_parameter (api_apiKey api) u) \<Longrightarrow>
   \<exists>req. perform client (client_request api v u b) =
           ([req], case client req of Resolves response \<Rightarrow> Resolves (axios_data response)
                                    | Rejects e \<Rightarrow> Rejects e)
        \<and> req_baseURL req = baseURL api
        \<and> (safe \<longrightarrow> apikey_parameter (api_apiKey api) (url req))"
  by (rule exI [of _ "client_request api v u b"]) (simp add: perform_def client_request_def)

lemma invoke_throws:
  "encodeURIComponent (encoded_argument call) = Inl e \<Longrightarrow> invoke api client call = ([], Rejects e)"
  by (cases call) (simp_all add: sendCommand_def getFileList_def)

lemma invoke_once:
  assumes "encodeURIComponent (encoded_argument call) = Inr s"
  shows "\<exists>req. invoke api client call =
           ([req], case client req of Resolves response \<Rightarrow> Resolves (axios_data response)
                                    | Rejects e \<Rightarrow> Rejects e)
        \<and> req_baseURL req = baseURL api
        \<and> (CHR ''#'' \<notin> set (concat (api_apiKey api # spliced call))
             \<and> CHR ''&'' \<notin> set (api_apiKey api)
           \<longrightarrow> apikey_parameter (api_apiKey api) (url req))"
proof (cases call)
  case GetDaemons
  show ?thesis
    by (simp only: GetDaemons invoke.simps getDaemons_def)
       (rule perform_once, rule getDaemons_url, simp_all)
next
  case (GetInstances d p z)
  show ?thesis
    by (simp only: GetInstances invoke.simps getInstances_def)
       (rule perform_once, rule getInstances_url, simp_all)
next
  case (GetInstanceDetail i d)
  show ?thesis
    by (simp only: GetInstanceDetail invoke.simps getInstanceDetail_def)
       (rule perform_once, rule getInstanceDetail_url, simp_all)
next
  case (StartInstance i d)
  show ?thesis
    by (simp only: StartInstance invoke.simps startInstance_def)
       (rule perform_once, rule multi_start_url, simp_all)
next
  case (StopInstance i d)
  show ?thesis
    by (simp only: StopInstance invoke.simps stopInstance_def)
       (rule perform_once, rule multi_stop_url, simp_all)
next
  case (RestartInstance i d)
  show ?thesis
    by (simp only: RestartInstance invoke.simps restartInstance_def)
       (rule perform_once, rule multi_restart_url, simp_all)
next
  case (KillInstance i d)
  show ?thesis
    by (simp only: KillInstance invoke.simps killInstance_def)
       (rule perform_once, rule multi_kill_url, simp_all)
next
  case (SendCommand i d c)
  with assms have enc: "encodeURIComponent c = Inr s" by simp
  from encodeURIComponent_no_hash [OF enc] have h: "CHR ''#'' \<notin> set s" .
  show ?thesis
    by (simp only: SendCommand invoke.simps sendCommand_def enc sum.case)
       (rule perform_once, rule sendCommand_url, simp_all add: h)
next
  case (GetFileList i d t p z)
  with assms have enc: "encodeURIComponent (arg_or t []) = Inr s" by simp
  from encodeURIComponent_no_hash [OF enc] have h: "CHR ''#'' \<notin> set s" .
  show ?thesis
    by (simp only: GetFileList invoke.simps getFileList_def enc sum.case)
       (rule perform_once, rule getFileList_url, simp_all add: h)
next
  case (GetFileContent i d t)
  show ?thesis
    by (simp only: GetFileContent invoke.simps getFileContent_def)
       (rule perform_once, rule files_url, simp_all)
next
  case (UpdateFileContent i d t x)
  show ?thesis
    by (simp only: UpdateFileContent invoke.simps updateFileContent_def)
       (rule perform_once, rule files_url, simp_all)
next
  case (GetUsers p z)
  show ?thesis
    by (simp only: GetUsers invoke.simps getUsers_def)
       (rule perform_once, rule getUsers_url, simp_all)
next
  case GetOverview
  show ?thesis
    by (simp only: GetOverview invoke.simps getOverview_def)
       (rule perform_once, rule getOverview_url, simp_all)
qed

text \<open>
  C7, as the code has it. A method hands at most one request to the HTTP client. When
  \<open>encodeURIComponent\<close> throws on the command or the target path, it hands none and
  rejects with that \<open>URIError\<close>; this does not happen when the argument holds no
  surrogate. Otherwise it hands exactly one, to the configured base URL, and returns
  \<open>response.data\<close> of the answer as it came, or rejects with the error the client
  rejected with. The query of the URL carries the configured key as the \<open>apikey\<close>
  parameter when neither the key nor a string that the method splices in as it is holds
  a \<open>#\<close>, and the key holds no \<open>&\<close>.
\<close>

theorem every_method_at_most_one_request:
  "(\<forall>e. encodeURIComponent (encoded_argument call) = Inl e \<longrightarrow>
        e = URIError \<and> invoke api client call = ([], Rejects e))
   \<and> ((\<forall>u \<in> set (encoded_argument call). \<not> leading_surrogate u \<and> \<not> trailing_surrogate u) \<longrightarrow>
        (\<exists>s. encodeURIComponent (encoded_argument call) = Inr s))
   \<and> (\<forall>s. encodeURIComponent (encoded_argument call) = Inr s \<longrightarrow>
        (\<exists>req. invoke api client call =
                 ([req], case client req of Resolves response \<Rightarrow> Resolves (axios_data response)
                                          | Rejects e \<Rightarrow> Rejects e)
            \<and> req_baseURL req = baseURL api
            \<and> (CHR ''#'' \<notin> set (concat (api_apiKey api # spliced call))
                 \<and> CHR ''&'' \<notin> set (api_apiKey api)
               \<longrightarrow> apikey_parameter (api_apiKey api) (url req))))"
  using encodeURIComponent_throws invoke_throws encodeURIComponent_no_surrogate invoke_once
  by blast

theorem every_method_at_most_one_request_witness:
  "fst (invoke sample_api (panel_status 200) (SendCommand ''i1'' ''d1'' [0x73, 0x61, 0x79, 0x20, 0x68, 0x69]))
     = [client_request sample_api HttpGet
          ''/api/protected_instance/command?uuid=i1&daemonId=d1&command=say%20hi&apikey=k'' None]
   \<and> snd (invoke sample_api (panel_status 200) (SendCommand ''i1'' ''d1'' [0x73, 0x61, 0x79, 0x20, 0x68, 0x69]))
     = Resolves \<lparr> status = JNum 200, data = () \<rparr>
   \<and> apikey_parameter ''k''
         ''/api/protected_instance/command?uuid=i1&daemonId=d1&command=say%20hi&apikey=k''"
proof -
  let ?call = "SendCommand ''i1'' ''d1'' [0x73, 0x61, 0x79, 0x20, 0x68, 0x69]"
  have enc: "encodeURIComponent (encoded_argument ?call) = Inr ''say%20hi''"
    by (simp add: unreserved_unit_def leading_surrogate_def trailing_surrogate_def unreserved_def
        utf8_def percent_def digit_char_def char_of_def bit_Suc_0_iff)
  have safe: "CHR ''#'' \<notin> set (concat (api_apiKey sample_api # spliced ?call))
              \<and> CHR ''&'' \<notin> set (api_apiKey sample_api)"
    by (simp add: sample_api_def)
  from every_method_at_most_one_request [of ?call sample_api "panel_status 200"] enc safe
  obtain req where
    r: "invoke sample_api (panel_status 200) ?call =
          ([req], case panel_status 200 req of
                     Resolves response \<Rightarrow> Resolves (axios_data response)
                   | Rejects e \<Rightarrow> Rejects e)"
    and k: "apikey_parameter (api_apiKey sample_api) (url req)"
    by blast
  from enc have c: "fst (invoke sample_api (panel_status 200) ?call)
     = [client_request sample_api HttpGet
          ''/api/protected_instance/command?uuid=i1&daemonId=d1&command=say%20hi&apikey=k'' None]"
    by (simp add: sendCommand_def perform_def sample_api_def)
  with r have "req = client_request sample_api HttpGet
          ''/api/protected_instance/command?uuid=i1&daemonId=d1&command=say%20hi&apikey=k'' None"
    by simp
  with k have "apikey_parameter ''k''
         ''/api/protected_instance/command?uuid=i1&daemonId=d1&command=say%20hi&apikey=k''"
    by (simp add: client_request_def sample_api_def)
  moreover from r have "snd (invoke sample_api (panel_status 200) ?call)
     = Resolves \<lparr> status = JNum 200, data = () \<rparr>"
    by (simp add: panel_status_def)
  ultimately show ?thesis using c by blast
qed

text \<open>
  C7, as stated, fails: \<open>sendCommand\<close> with a command that is a lone surrogate makes no
  request at all and rejects with a \<open>URIError\<close>, which is not an error of the transport;
  and \<open>getInstanceDetail\<close> for an instance id that holds a \<open>#\<close> makes a request whose
  query does not carry the key (the key is in the fragment).
\<close>

theorem no_request_on_lone_surrogate:
  "invoke sample_api (panel_status 200) (SendCommand ''i1'' ''d1'' [0xD800])
     = ([], Rejects (ErrorObj ''URI malformed''))
   \<and> map url (fst (invoke sample_api (panel_status 200) (GetInstanceDetail ''i#'' ''d1'')))
     = [''/api/instance?uuid=i#&daemonId=d1&apikey=k'']
   \<and> \<not> apikey_parameter ''k'' ''/api/instance?uuid=i#&daemonId=d1&apikey=k''"
  by (simp add: sendCommand_def getInstanceDetail_def perform_def client_request_def sample_api_def
      unreserved_unit_def leading_surrogate_def URIError_def apikey_parameter_def query_of_def)

section \<open>Tool handlers\<close>

subsection \<open>start-instance\<close>

lemma start_instance_ok:
  "snd (startInstance api client i d) = Resolves body \<Longrightarrow> status body = JNum 200 \<Longrightarrow>
   snd (start_instance_tool api client d i) =
     \<lparr> content = [TextBlock (''Successfully started instance '' @ i)], isError = False \<rparr>"
  by (simp add: start_instance_tool_def catch_def case_prod_beta)

lemma start_instance_bad_status:
  "snd (startInstance api client i d) = Resolves body \<Longrightarrow> status body \<noteq> JNum 200 \<Longrightarrow>
   snd (start_instance_tool api client d i) =
     \<lparr> content = [TextBlock (''Error starting instance: Failed to start instance: ''
                             @ to_string (status body))], isError = True \<rparr>"
  by (simp add: start_instance_tool_def catch_def error_result_def case_prod_beta)

lemma start_instance_rejected:
  "snd (startInstance api client i d) = Rejects e \<Longrightarrow>
   snd (start_instance_tool api client d i) =
     \<lparr> content = [TextBlock (''Error starting instance: '' @ error_text e)], isError = True \<rparr>"
  by (simp add: start_instance_tool_def catch_def error_result_def case_prod_beta)

text \<open>
  C5. The start-instance handler always returns a result (a thrown value never leaves
  it). The result is not error-marked exactly when the upstream call resolves with a body
  whose status is the number 200, and then its text is "Successfully started instance"
  followed by the instance id. When the body has any other status, the result is
  error-marked and its text ends with that status; when the call rejects, the result is
  error-marked and its text ends with the message of the error (or with the string
  conversion of a thrown value that is not an error).
\<close>

theorem start_instance_success_iff_200:
  "(\<not> isError (snd (start_instance_tool api client d i))
      \<longleftrightarrow> (\<exists>body. snd (startInstance api client i d) = Resolves body \<and> status body = JNum 200))
   \<and> (\<forall>body. snd (startInstance api client i d) = Resolves body \<and> status body = JNum 200 \<longrightarrow>
         snd (start_instance_tool api client d i) =
           \<lparr> content = [TextBlock (''Successfully started instance '' @ i)], isError = False \<rparr>)
   \<and> (\<forall>body. snd (startInstance api client i d) = Resolves body \<and> status body \<noteq> JNum 200 \<longrightarrow>
         snd (start_instance_tool api client d i) =
           \<lparr> content = [TextBlock (''Error starting instance: Failed to start instance: ''
                                   @ to_string (status body))], isError = True \<rparr>)
   \<and> (\<forall>e. snd (startInstance api client i d) = Rejects e \<longrightarrow>
         snd (start_instance_tool api client d i) =
           \<lparr> content = [TextBlock (''Error starting instance: '' @ error_text e)], isError = True \<rparr>)"
proof -
  have iff: "\<not> isError (snd (start_instance_tool api client d i))
      \<longleftrightarrow> (\<exists>body. snd (startInstance api client i d) = Resolves body \<and> status body = JNum 200)"
  proof (cases "snd (startInstance api client i d)")
    case (Resolves body)
    then show ?thesis
      using start_instance_ok [OF Resolves] start_instance_bad_status [OF Resolves]
      by (cases "status body = JNum 200") auto
  next
    case (Rejects e)
    then show ?thesis using start_instance_rejected [OF Rejects] by simp
  qed
  show ?thesis
    using iff start_instance_ok start_instance_bad_status start_instance_rejected by blast
qed

theorem start_instance_success_iff_200_witness:
  "snd (start_instance_tool sample_api (panel_status 200) ''d1'' ''i1'')
     = \<lparr> content = [TextBlock ''Successfully started instance i1''], isError = False \<rparr>
   \<and> snd (start_instance_tool sample_api (panel_status 500) ''d1'' ''i1'')
     = \<lparr> content = [TextBlock ''Error starting instance: Failed to start instance: 500''],
         isError = True \<rparr>
   \<and> snd (start_instance_tool sample_api
             ((\<lambda>req. Rejects (ErrorObj ''connect ECONNREFUSED'')) :: (unit envelope) client)
             ''d1'' ''i1'')
     = \<lparr> content = [TextBlock ''Error starting instance: connect ECONNREFUSED''],
         isError = True \<rparr>"
proof -
  let ?down = "(\<lambda>req. Rejects (ErrorObj ''connect ECONNREFUSED'')) :: (unit envelope) client"
  have a: "snd (startInstance sample_api (panel_status 200) ''i1'' ''d1'')
             = Resolves \<lparr> status = JNum 200, data = () \<rparr>"
    by (simp add: startInstance_def perform_def panel_status_def)
  have b: "snd (startInstance sample_api (panel_status 500) ''i1'' ''d1'')
             = Resolves \<lparr> status = JNum 500, data = () \<rparr>"
    by (simp add: startInstance_def perform_def panel_status_def)
  have c: "snd (startInstance sample_api ?down ''i1'' ''d1'') = Rejects (ErrorObj ''connect ECONNREFUSED'')"
    by (simp add: startInstance_def perform_def)
  from a start_instance_success_iff_200 [of sample_api "panel_status 200" "''d1''" "''i1''"]
  have "snd (start_instance_tool sample_api (panel_status 200) ''d1'' ''i1'')
     = \<lparr> content = [TextBlock ''Successfully started instance i1''], isError = False \<rparr>"
    by simp
  moreover
  from b start_instance_success_iff_200 [of sample_api "panel_status 500" "''d1''" "''i1''"]
  have "snd (start_instance_tool sample_api (panel_status 500) ''d1'' ''i1'')
     = \<lparr> content = [TextBlock ''Error starting instance: Failed to start instance: 500''],
         isError = True \<rparr>"
    by (simp add: show_int_small)
  moreover
  from c start_instance_success_iff_200 [of sample_api ?down "''d1''" "''i1''"]
  have "snd (start_instance_tool sample_api ?down ''d1'' ''i1'')
     = \<lparr> content = [TextBlock ''Error starting instance: connect ECONNREFUSED''],
         isError = True \<rparr>"
    by simp
  ultimately show ?thesis by blast
qed

subsection \<open>get-files\<close>

lemma get_files_calls_omitted:
  "fst (get_files_tool api client d i None) =
     [client_request api HttpGet
        (''/api/files/list?uuid='' @ i @ ''&daemonId='' @ d
         @ ''&target=&page=0&page_size=100&apikey='' @ api_apiKey api) None]"
  by (simp add: get_files_tool_def getFileList_def perform_def or_default_def arg_or_def
      show_int_small case_prod_beta Let_def)

lemma get_files_calls:
  "fst (get_files_tool api client d i p)
     = fst (getFileList api client i d (Some (or_default p [])) None None)"
  by (simp add: get_files_tool_def case_prod_beta Let_def)

lemma project_file_type:
  "(info_type (project_file f) = ''directory'' \<longleftrightarrow> file_type f = JNum 0)
   \<and> (info_type (project_file f) = ''file'' \<longleftrightarrow> file_type f \<noteq> JNum 0)"
  by (simp add: project_file_def)

lemma get_files_projection:
  "content (snd (get_files_tool api client d i p)) = [JsonBlock info] \<Longrightarrow>
   \<exists>body. snd (getFileList api client i d (Some (or_default p [])) None None) = Resolves body
      \<and> status body = JNum 200
      \<and> info = \<lparr> path = absolutePath (data body), files = map project_file (items (data body)) \<rparr>"
  by (auto simp: get_files_tool_def catch_def error_result_def case_prod_beta Let_def
      split: outcome.splits if_splits)

text \<open>
  C8. When get-files is called without a path, the one upstream request is the file-list
  request with an empty target (\<open>target=\<close> is followed at once by the next parameter),
  that is, the request of \<open>getFileList\<close> for the empty path. And whenever the handler
  returns a projection, it has one entry for each item of the upstream answer, in order,
  and the type of an entry is "directory" exactly when the type code of its item is the
  number 0, and "file" exactly when it is anything else.
\<close>

theorem get_files_empty_target_and_types:
  "fst (get_files_tool api client d i None) =
     [client_request api HttpGet
        (''/api/files/list?uuid='' @ i @ ''&daemonId='' @ d
         @ ''&target=&page=0&page_size=100&apikey='' @ api_apiKey api) None]
   \<and> fst (get_files_tool api client d i None) = fst (getFileList api client i d (Some []) None None)
   \<and> (\<forall>info. content (snd (get_files_tool api client d i p)) = [JsonBlock info] \<longrightarrow>
        (\<exists>body. snd (getFileList api client i d (Some (or_default p [])) None None) = Resolves body
           \<and> length (files info) = length (items (data body))
           \<and> (\<forall>n < length (files info).
                 (info_type (files info ! n) = ''directory''
                    \<longleftrightarrow> file_type (items (data body) ! n) = JNum 0)
               \<and> (info_type (files info ! n) = ''file''
                    \<longleftrightarrow> file_type (items (data body) ! n) \<noteq> JNum 0))))"
proof -
  have a: "fst (get_files_tool api client d i None) = fst (getFileList api client i d (Some []) None None)"
    using get_files_calls [of api client d i None] by (simp add: or_default_def)
  have b: "\<forall>info. content (snd (get_files_tool api client d i p)) = [JsonBlock info] \<longrightarrow>
        (\<exists>body. snd (getFileList api client i d (Some (or_default p [])) None None) = Resolves body
           \<and> length (files info) = length (items (data body))
           \<and> (\<forall>n < length (files info).
                 (info_type (files info ! n) = ''directory''
                    \<longleftrightarrow> file_type (items (data body) ! n) = JNum 0)
               \<and> (info_type (files info ! n) = ''file''
                    \<longleftrightarrow> file_type (items (data body) ! n) \<noteq> JNum 0)))"
  proof (intro allI impI)
    fix info
    assume "content (snd (get_files_tool api client d i p)) = [JsonBlock info]"
    from get_files_projection [OF this]
    obtain body where
      r: "snd (getFileList api client i d (Some (or_default p [])) None None) = Resolves body"
      and inf: "info = \<lparr> path = absolutePath (data body),
                          files = map project_file (items (data body)) \<rparr>"
      by blast
    from inf have "files info = map project_file (items (data body))" by simp
    then have "length (files info) = length (items (data body))
           \<and> (\<forall>n < length (files info).
                 (info_type (files info ! n) = ''directory''
                    \<longleftrightarrow> file_type (items (data body) ! n) = JNum 0)
               \<and> (info_type (files info ! n) = ''file''
                    \<longleftrightarrow> file_type (items (data body) ! n) \<noteq> JNum 0))"
      by (simp add: project_file_type)
    with r show "\<exists>body. snd (getFileList api client i d (Some (or_default p [])) None None) = Resolves body
           \<and> length (files info) = length (items (data body))
           \<and> (\<forall>n < length (files info).
                 (info_type (files info ! n) = ''directory''
                    \<longleftrightarrow> file_type (items (data body) ! n) = JNum 0)
               \<and> (info_type (files info ! n) = ''file''
                    \<longleftrightarrow> file_type (items (data body) ! n) \<noteq> JNum 0))"
      by blast
  qed
  from get_files_calls_omitted a b show ?thesis by blast
qed

theorem get_files_empty_target_and_types_witness:
  "map url (fst (get_files_tool sample_api panel_files ''d1'' ''i1'' None))
     = [''/api/files/list?uuid=i1&daemonId=d1&target=&page=0&page_size=100&apikey=k'']
   \<and> content (snd (get_files_tool sample_api panel_files ''d1'' ''i1'' None))
     = [JsonBlock \<lparr> path = JStr ''/'', files = [project_file sample_dir, project_file sample_file] \<rparr>]
   \<and> info_type (project_file sample_dir) = ''directory''
   \<and> info_type (project_file sample_file) = ''file''"
proof -
  let ?info = "\<lparr> path = JStr ''/'', files = [project_file sample_dir, project_file sample_file] \<rparr>"
  have c: "content (snd (get_files_tool sample_api panel_files ''d1'' ''i1'' None)) = [JsonBlock ?info]"
    by (simp add: get_files_tool_def getFileList_def perform_def panel_files_def catch_def
        or_default_def arg_or_def case_prod_beta Let_def)
  have g: "snd (getFileList sample_api panel_files ''i1'' ''d1'' (Some (or_default None [])) None None)
           = Resolves \<lparr> status = JNum 200,
                         data = \<lparr> absolutePath = JStr ''/'', items = [sample_dir, sample_file] \<rparr> \<rparr>"
    by (simp add: getFileList_def perform_def panel_files_def or_default_def arg_or_def)
  from get_files_empty_target_and_types [of sample_api panel_files "''d1''" "''i1''" None]
  have u: "fst (get_files_tool sample_api panel_files ''d1'' ''i1'' None) =
     [client_request sample_api HttpGet
        (''/api/files/list?uuid='' @ ''i1'' @ ''&daemonId='' @ ''d1''
         @ ''&target=&page=0&page_size=100&apikey='' @ api_apiKey sample_api) None]"
    and t: "\<forall>info. content (snd (get_files_tool sample_api panel_files ''d1'' ''i1'' None)) = [JsonBlock info] \<longrightarrow>
        (\<exists>body. snd (getFileList sample_api panel_files ''i1'' ''d1'' (Some (or_default None [])) None None) = Resolves body
           \<and> length (files info) = length (items (data body))
           \<and> (\<forall>n < length (files info).
                 (info_type (files info ! n) = ''directory''
                    \<longleftrightarrow> file_type (items (data body) ! n) = JNum 0)
               \<and> (info_type (files info ! n) = ''file''
                    \<longleftrightarrow> file_type (items (data body) ! n) \<noteq> JNum 0)))"
    by blast+
  from t c g have every:
    "\<forall>n < 2. (info_type ([project_file sample_dir, project_file sample_file] ! n) = ''directory''
                 \<longleftrightarrow> file_type ([sample_dir, sample_file] ! n) = JNum 0)
            \<and> (info_type ([project_file sample_dir, project_file sample_file] ! n) = ''file''
                 \<longleftrightarrow> file_type ([sample_dir, sample_file] ! n) \<noteq> JNum 0)"
    by auto
  from every [rule_format, of 0] every [rule_format, of 1]
  have "(info_type ([project_file sample_dir, project_file sample_file] ! 0) = ''directory''
                 \<longleftrightarrow> file_type ([sample_dir, sample_file] ! 0) = JNum 0)
          \<and> (info_type ([project_file sample_dir, project_file sample_file] ! 1) = ''file''
                 \<longleftrightarrow> file_type ([sample_dir, sample_file] ! 1) \<noteq> JNum 0)"
    by simp
  then have "info_type (project_file sample_dir) = ''directory''
           \<and> info_type (project_file sample_file) = ''file''"
    by (simp add: sample_dir_def sample_file_def)
  moreover from u have "map url (fst (get_files_tool sample_api panel_files ''d1'' ''i1'' None))
     = [''/api/files/list?uuid=i1&daemonId=d1&target=&page=0&page_size=100&apikey=k'']"
    by (simp add: client_request_def sample_api_def)
  ultimately show ?thesis using c by blast
qed

subsection \<open>get-file-content\<close>

text \<open>
  C9. When the \<open>filePath\<close> argument of get-file-content is missing or empty, the handler
  returns the error-marked result "File path is required" (after the handler's prefix)
  and hands no request to the upstream client, whatever that client would answer.
\<close>

theorem get_file_content_requires_path:
  assumes "filePath = None \<or> filePath = Some []"
  shows "get_file_content_tool api client d i filePath =
           ([], \<lparr> content = [TextBlock ''Error fetching file content: File path is required''],
                 isError = True \<rparr>)"
  using assms by (auto simp: get_file_content_tool_def catch_def error_result_def)

theorem get_file_content_requires_path_witness:
  "get_file_content_tool sample_api
     ((\<lambda>req. Resolves \<lparr> axios_status = 200, axios_data = \<lparr> status = JNum 200, data = ''x'' \<rparr> \<rparr>)
        :: (string envelope) client)
     ''d1'' ''i1'' (Some []) =
     ([], \<lparr> content = [TextBlock ''Error fetching file content: File path is required''],
           isError = True \<rparr>)"
proof -
  have h: "Some [] = None \<or> Some ([] :: string) = Some []" by simp
  from get_file_content_requires_path [OF h] show ?thesis .
qed

subsection \<open>get-instances\<close>








lemma listed_error [simp]: "listed (error_result prefix e) = []"
  by (simp add: listed_def error_result_def)







section \<open>Session router: the table is touched only by the two callbacks\<close>

lemma onclose_fields [simp]:
  "constructed (onclose t r) = constructed r"
  "issued (onclose t r) = issued r"
  "transport_sessionId (onclose t r) = transport_sessionId r"
  by (simp_all add: onclose_def split: option.splits)

lemma onclose_transports:
  "transports (onclose t r) sid = Some t' \<Longrightarrow> transports r sid = Some t'"
  by (auto simp: onclose_def split: option.splits if_splits)

lemma transport_step_fields [simp]:
  "constructed (transport_step t e r) = constructed r"
  "issued (transport_step t e r) = issued r @ drawn [e]"
  by (cases e; simp add: onsessioninitialized_def)+

lemma handleRequest_constructed [simp]: "constructed (handleRequest t es r) = constructed r"
  unfolding handleRequest_def by (induction es arbitrary: r) auto

lemma drawn_Cons: "drawn (e # es) = drawn [e] @ drawn es"
  by (cases e) auto

lemma handleRequest_issued: "issued (handleRequest t es r) = issued r @ drawn es"
  unfolding handleRequest_def
proof (induction es arbitrary: r)
  case Nil
  then show ?case by simp
next
  case (Cons e es)
  then show ?case using drawn_Cons [of e es] by simp
qed

lemma handleRequest_new_entry:
  "transports (handleRequest t es r) sid = Some t' \<Longrightarrow>
   transports r sid = Some t' \<or> sid \<in> set (drawn es)"
  unfolding handleRequest_def
proof (induction es arbitrary: r)
  case Nil
  then show ?case by simp
next
  case (Cons e es)
  from Cons.IH [of "transport_step t e r"] Cons.prems
  have "transports (transport_step t e r) sid = Some t' \<or> sid \<in> set (drawn es)" by simp
  then show ?case
  proof
    assume a: "transports (transport_step t e r) sid = Some t'"
    show ?thesis
    proof (cases e)
      case (SessionInitialized s0)
      with a show ?thesis by (auto simp: onsessioninitialized_def split: if_splits)
    next
      case Closed
      with a show ?thesis by (auto dest: onclose_transports)
    qed
  next
    assume "sid \<in> set (drawn es)"
    then show ?thesis using drawn_Cons [of e es] by simp
  qed
qed

lemma transport_step_inv:
  assumes "sessions_distinct r" and "t < constructed r"
    and "distinct (issued (transport_step t e r))"
  shows "sessions_distinct (transport_step t e r)"
proof (cases e)
  case (SessionInitialized s0)
  from assms(3) SessionInitialized have fresh: "s0 \<notin> set (issued r)"
    by (simp add: onsessioninitialized_def)
  from assms(1) have
    a: "\<And>sid u. transports r sid = Some u \<Longrightarrow> sid \<in> set (issued r) \<and> u < constructed r"
    and b: "\<And>u sid. transport_sessionId r u = Some sid \<Longrightarrow> sid \<in> set (issued r) \<and> u < constructed r"
    and c: "\<And>t1 t2 sid. transport_sessionId r t1 = Some sid \<Longrightarrow> transport_sessionId r t2 = Some sid \<Longrightarrow> t1 = t2"
    unfolding sessions_distinct_def by blast+
  show ?thesis
    unfolding sessions_distinct_def SessionInitialized
    using a b c fresh assms(2)
    by (auto simp: onsessioninitialized_def split: if_splits)
next
  case Closed
  from assms(1) show ?thesis
    unfolding sessions_distinct_def Closed
    by (auto dest: onclose_transports)
qed

lemma handleRequest_inv:
  "sessions_distinct r \<Longrightarrow> t < constructed r \<Longrightarrow> distinct (issued (handleRequest t es r)) \<Longrightarrow>
   sessions_distinct (handleRequest t es r)"
proof (induction es arbitrary: r)
  case Nil
  then show ?case by (simp add: handleRequest_def)
next
  case (Cons e es)
  have unfold: "handleRequest t (e # es) r = handleRequest t es (transport_step t e r)"
    by (simp add: handleRequest_def)
  from Cons.prems(3) have d: "distinct (issued (handleRequest t es (transport_step t e r)))"
    by (simp only: unfold)
  then have "distinct (issued (transport_step t e r))"
    by (auto simp: handleRequest_issued)
  with Cons.prems have "sessions_distinct (transport_step t e r)"
    by (intro transport_step_inv)
  moreover from Cons.prems(2) have "t < constructed (transport_step t e r)" by simp
  ultimately have "sessions_distinct (handleRequest t es (transport_step t e r))"
    using d by (rule Cons.IH)
  then show ?case by (simp only: unfold)
qed


lemma post_mcp_constructs:
  "constructed (snd (post_mcp req events r)) =
     (if truthy (session_header req) = None \<and> is_initialize (body_method req)
      then Suc (constructed r) else constructed r)"
  by (simp add: post_mcp_def Let_def split: option.splits property.splits)

lemma handleSessionRequest_constructs:
  "constructed (snd (handleSessionRequest header events r)) = constructed r"
  by (simp add: handleSessionRequest_def split: option.splits property.splits)

lemma router_step_issued: "\<exists>more. issued (router_step s r) = issued r @ more"
proof (cases s)
  case (PostMcp req events)
  then show ?thesis
    by (auto simp: post_mcp_def Let_def handleRequest_issued split: option.splits property.splits)
next
  case (GetMcp header events)
  then show ?thesis
    by (auto simp: handleSessionRequest_def handleRequest_issued split: option.splits property.splits)
next
  case (DeleteMcp header events)
  then show ?thesis
    by (auto simp: handleSessionRequest_def handleRequest_issued split: option.splits property.splits)
next
  case (TransportCloses t)
  then show ?thesis by simp
qed

lemma run_issued: "\<exists>more. issued (run steps r) = issued r @ more"
  unfolding run_def
proof (induction steps arbitrary: r)
  case Nil
  then show ?case by simp
next
  case (Cons s steps)
  from router_step_issued [of s r] obtain m1 where "issued (router_step s r) = issued r @ m1" ..
  moreover from Cons [of "router_step s r"] obtain m2
    where "issued (fold router_step steps (router_step s r)) = issued (router_step s r) @ m2" ..
  ultimately show ?case by simp
qed

lemma router_step_new_entry:
  assumes "transports (router_step s r) sid = Some t" and "transports r sid \<noteq> Some t"
  shows "sid \<in> set (drop (length (issued r)) (issued (router_step s r)))"
proof (cases s)
  case (PostMcp req events)
  with assms show ?thesis
    by (auto simp: post_mcp_def Let_def handleRequest_issued
        split: option.splits property.splits if_splits dest!: handleRequest_new_entry)
next
  case (GetMcp header events)
  with assms show ?thesis
    by (auto simp: handleSessionRequest_def handleRequest_issued
        split: option.splits property.splits dest!: handleRequest_new_entry)
next
  case (DeleteMcp header events)
  with assms show ?thesis
    by (auto simp: handleSessionRequest_def handleRequest_issued
        split: option.splits property.splits dest!: handleRequest_new_entry)
next
  case (TransportCloses u)
  with assms show ?thesis by (auto split: if_splits dest: onclose_transports)
qed

lemma router_step_fresh_entry:
  assumes "distinct (issued (router_step s r))"
    and "transports (router_step s r) sid = Some t" and "transports r sid \<noteq> Some t"
  shows "sid \<notin> set (issued r) \<and> sid \<in> set (issued (router_step s r))"
proof -
  from router_step_issued [of s r] obtain more where m: "issued (router_step s r) = issued r @ more" ..
  from router_step_new_entry [OF assms(2,3)] m have "sid \<in> set more" by simp
  with assms(1) m show ?thesis by auto
qed

lemma get_property_Own: "get_property m k = Own v \<Longrightarrow> m k = Some v"
  by (auto simp: get_property_def split: option.splits if_splits)

lemma router_step_inv:
  assumes "sessions_distinct r" and "distinct (issued (router_step s r))"
  shows "sessions_distinct (router_step s r)"
proof -
  have own: "\<And>sid t. get_property (transports r) sid = Own t \<Longrightarrow> t < constructed r"
    using assms(1) by (auto simp: sessions_distinct_def dest!: get_property_Own)
  have grow: "sessions_distinct (r\<lparr>constructed := Suc (constructed r)\<rparr>)"
    using assms(1) by (auto simp: sessions_distinct_def less_Suc_eq)
  have routed: "\<And>h events. distinct (issued (snd (handleSessionRequest h events r))) \<Longrightarrow>
      sessions_distinct (snd (handleSessionRequest h events r))"
    using assms(1) own
    by (auto simp: handleSessionRequest_def split: option.splits property.splits
        intro!: handleRequest_inv)
  show ?thesis
  proof (cases s)
    case (PostMcp req events)
    with assms own grow show ?thesis
      by (auto simp: post_mcp_def Let_def split: option.splits property.splits
          intro!: handleRequest_inv)
  next
    case (GetMcp header events)
    with assms(2) routed show ?thesis by simp
  next
    case (DeleteMcp header events)
    with assms(2) routed show ?thesis by simp
  next
    case (TransportCloses t)
    with assms(1) show ?thesis
      by (auto simp: sessions_distinct_def dest: onclose_transports)
  qed
qed

lemma run_inv:
  "sessions_distinct r \<Longrightarrow> distinct (issued (run steps r)) \<Longrightarrow> sessions_distinct (run steps r)"
proof (induction steps arbitrary: r)
  case Nil
  then show ?case by (simp add: run_def)
next
  case (Cons s steps)
  have unfold: "run (s # steps) r = run steps (router_step s r)" by (simp add: run_def)
  from Cons.prems(2) have d: "distinct (issued (run steps (router_step s r)))"
    by (simp only: unfold)
  from run_issued [of steps "router_step s r"] obtain more
    where "issued (run steps (router_step s r)) = issued (router_step s r) @ more" ..
  with d have "distinct (issued (router_step s r))" by simp
  with Cons.prems(1) have "sessions_distinct (router_step s r)" by (rule router_step_inv)
  then have "sessions_distinct (run steps (router_step s r))" using d by (rule Cons.IH)
  then show ?case by (simp only: unfold)
qed

lemma initial_inv: "sessions_distinct initial_router"
  by (simp add: sessions_distinct_def initial_router_def)


lemma delete_absent:
  "transports r sid = None \<Longrightarrow> r\<lparr>transports := (transports r)(sid := None)\<rparr> = r"
proof -
  assume "transports r sid = None"
  then have "(transports r)(sid := None) = transports r" by (rule fun_upd_idem)
  then show ?thesis by simp
qed

lemma onclose_twice: "onclose t (onclose t r) = onclose t r"
  by (simp add: onclose_def split: option.splits)

lemma onclose_absent:
  "transport_sessionId r t = Some sid \<Longrightarrow> transports r sid = None \<Longrightarrow> onclose t r = r"
  by (simp add: onclose_def delete_absent)

text \<open>
  What holds of the rejections. The routes read an empty header as no header. A POST is
  answered with the fixed JSON error, and a GET or DELETE with the fixed text, and the
  router is left as it was, when the header is absent or empty (for POST: and the body is
  not an initialize request), or names an id that is neither a key of the table nor the
  name of a property of \<open>Object.prototype\<close>.
\<close>

lemma post_mcp_empty_header:
  "post_mcp (req\<lparr> session_header := Some [] \<rparr>) events r
     = post_mcp (req\<lparr> session_header := None \<rparr>) events r"
  by (simp add: post_mcp_def truthy_def)

lemma post_mcp_rejects:
  assumes "(truthy (session_header req) = None \<and> \<not> is_initialize (body_method req))
         \<or> (\<exists>sid. truthy (session_header req) = Some sid \<and> transports r sid = None
               \<and> sid \<notin> set object_prototype_properties)"
  shows "post_mcp req events r = (no_valid_session, r)"
  using assms by (auto simp: post_mcp_def get_property_def)

lemma handleSessionRequest_rejects:
  assumes "truthy header = None
         \<or> (\<exists>sid. truthy header = Some sid \<and> transports r sid = None
               \<and> sid \<notin> set object_prototype_properties)"
  shows "handleSessionRequest header events r = (invalid_or_missing, r)"
  using assms by (auto simp: handleSessionRequest_def get_property_def)

text \<open>
  C1. A POST whose \<open>mcp-session-id\<close> header is \<open>constructor\<close> names an id that is not in
  the Session Table (here the table is empty). The router leaves the table as it was, but
  it does not answer with status 400 and the JSON error: the read of
  \<open>this.transports["constructor"]\<close> yields the inherited \<open>Object.prototype.constructor\<close>,
  the route takes it for the session's transport, and the call of its \<open>handleRequest\<close>
  throws. This holds for every body and whatever a transport would have done.
\<close>

theorem post_mcp_inherited_property:
  "transports initial_router ''constructor'' = None
   \<and> post_mcp \<lparr> session_header = Some ''constructor'', body_method = b \<rparr> events initial_router
       = (Uncaught (ErrorObj ''transport.handleRequest is not a function''), initial_router)
   \<and> fst (post_mcp \<lparr> session_header = Some ''constructor'', body_method = b \<rparr> events initial_router)
       \<noteq> no_valid_session"
  by (simp add: post_mcp_def truthy_def get_property_def object_prototype_properties_def
      initial_router_def not_a_function_def no_valid_session_def)

text \<open>
  C3. A GET or DELETE whose \<open>mcp-session-id\<close> header is \<open>constructor\<close> names an id that is
  not in the Session Table. The table is unchanged, but the answer is not status 400 with
  the text "Invalid or missing session ID": the table read yields the inherited
  \<open>Object.prototype.constructor\<close>, the check passes, and the call of \<open>handleRequest\<close>
  throws.
\<close>

theorem handleSessionRequest_inherited_property:
  "transports initial_router ''constructor'' = None
   \<and> handleSessionRequest (Some ''constructor'') events initial_router
       = (Uncaught (ErrorObj ''transport.handleRequest is not a function''), initial_router)
   \<and> fst (handleSessionRequest (Some ''constructor'') events initial_router)
       \<noteq> invalid_or_missing"
  by (simp add: handleSessionRequest_def truthy_def get_property_def object_prototype_properties_def
      initial_router_def not_a_function_def invalid_or_missing_def)

text \<open>
  C4. Teardown is idempotent: running the close hook of a transport twice leaves the
  router, and so the Session Table, as running it once does; and when the transport's
  session id is not a key of the table, the hook changes nothing (the deletion of an
  absent key is not an error: the hook has no failing branch).
\<close>

theorem teardown_idempotent:
  "onclose t (onclose t r) = onclose t r
   \<and> (\<forall>sid. transport_sessionId r t = Some sid \<and> transports r sid = None \<longrightarrow> onclose t r = r)"
  using onclose_twice onclose_absent by blast

theorem teardown_idempotent_witness:
  "transport_sessionId (onclose 0 one_session) 0 = Some uuid_a
   \<and> transports one_session uuid_a = Some 0
   \<and> transports (onclose 0 one_session) uuid_a = None
   \<and> onclose 0 (onclose 0 one_session) = onclose 0 one_session"
proof -
  have a: "transport_sessionId (onclose 0 one_session) 0 = Some uuid_a
           \<and> transports one_session uuid_a = Some 0
           \<and> transports (onclose 0 one_session) uuid_a = None"
    by (simp add: onclose_def one_session_def uuid_a_def)
  with teardown_idempotent [of 0 "onclose 0 one_session"] show ?thesis by blast
qed

lemma handleRequest_snoc:
  "handleRequest t (es @ [e]) r = transport_step t e (handleRequest t es r)"
  by (simp add: handleRequest_def)

lemma report_stored:
  "transports (handleRequest t (es @ [SessionInitialized sid]) r) sid = Some t
   \<and> transport_sessionId (handleRequest t (es @ [SessionInitialized sid]) r) t = Some sid"
  by (simp add: handleRequest_snoc onsessioninitialized_def)

lemma post_mcp_creates:
  assumes "truthy (session_header req) = None" and "is_initialize (body_method req)"
  shows "fst (post_mcp req events r) = HandledBy (constructed r)"
    and "transports (snd (post_mcp req (events @ [SessionInitialized sid]) r)) sid
           = Some (constructed r)"
    and "transport_sessionId (snd (post_mcp req (events @ [SessionInitialized sid]) r))
           (constructed r) = Some sid"
  using assms by (simp_all add: post_mcp_def Let_def report_stored)

lemma close_removes:
  assumes "t < constructed r" and "transport_sessionId r t = Some sid" and "sid \<noteq> []"
  shows "transports (router_step (TransportCloses t) r) sid = None"
    and "\<forall>k. k \<noteq> sid \<longrightarrow> transports (router_step (TransportCloses t) r) k = transports r k"
  using assms by (simp_all add: onclose_def)

lemma router_step_issued_cases:
  "issued (router_step s r) = issued r \<or> issued (router_step s r) = issued r @ step_draws s"
proof (cases s)
  case (PostMcp req events)
  then show ?thesis
    by (auto simp: post_mcp_def Let_def handleRequest_issued split: option.splits property.splits)
next
  case (GetMcp header events)
  then show ?thesis
    by (auto simp: handleSessionRequest_def handleRequest_issued split: option.splits property.splits)
next
  case (DeleteMcp header events)
  then show ?thesis
    by (auto simp: handleSessionRequest_def handleRequest_issued split: option.splits property.splits)
next
  case (TransportCloses t)
  then show ?thesis by simp
qed

lemma draws_Cons: "draws (s # steps) = step_draws s @ draws steps"
  by (simp add: draws_def)

lemma draws_append: "draws (pre @ post) = draws pre @ draws post"
  by (simp add: draws_def)

lemma run_distinct:
  "distinct (issued r @ draws steps) \<Longrightarrow> distinct (issued (run steps r))"
proof (induction steps arbitrary: r)
  case Nil
  then show ?case by (simp add: run_def draws_def)
next
  case (Cons s steps)
  have unfold: "run (s # steps) r = run steps (router_step s r)" by (simp add: run_def)
  from Cons.prems have d: "distinct (issued r @ step_draws s @ draws steps)"
    by (simp add: draws_Cons)
  from router_step_issued_cases [of s r] d
  have "distinct (issued (router_step s r) @ draws steps)" by auto
  then have "distinct (issued (run steps (router_step s r)))" by (rule Cons.IH)
  then show ?case by (simp only: unfold)
qed

lemma run_snoc: "run (pre @ [s]) r = router_step s (run pre r)"
  by (simp add: run_def)

lemma run_prefix_inv:
  assumes "distinct (draws (pre @ post))"
  shows "sessions_distinct (run pre initial_router)"
proof -
  from assms have "distinct (issued initial_router @ draws pre)"
    by (simp add: draws_append initial_router_def)
  then have "distinct (issued (run pre initial_router))" by (rule run_distinct)
  with initial_inv show ?thesis by (rule run_inv)
qed

lemma run_fresh_entry:
  assumes "distinct (draws (pre @ s # post))"
    and "transports (run (pre @ [s]) initial_router) k = Some t"
    and "transports (run pre initial_router) k \<noteq> Some t"
  shows "k \<notin> set (issued (run pre initial_router))"
proof -
  have "draws [] = []" by (simp add: draws_def)
  with assms(1) have "distinct (issued initial_router @ draws (pre @ [s]))"
    by (auto simp: draws_append draws_Cons initial_router_def)
  then have "distinct (issued (run (pre @ [s]) initial_router))" by (rule run_distinct)
  then have "distinct (issued (router_step s (run pre initial_router)))"
    by (simp only: run_snoc)
  moreover from assms(2) have "transports (router_step s (run pre initial_router)) k = Some t"
    by (simp only: run_snoc)
  ultimately show ?thesis using assms(3) router_step_fresh_entry by blast
qed

text \<open>
  C2, as the code has it. A transport is constructed, with its close hook, exactly when a
  POST has no session id in its header (the header is absent or empty) and the \<open>method\<close>
  of its body is \<open>initialize\<close>; a GET or DELETE constructs none. The request is handed
  to the new transport, and when that transport reports that it has started a session
  under an id, the Session Table holds the new transport under that id and the transport
  has that id. A step adds an entry to the table only under an id that a transport drew in
  that very step. When a transport that has a session id closes, its hook removes the
  entry of that id and leaves every other entry as it was. With \<open>randomUUID\<close> returning a
  different id at each call (the ids that the transports of the run draw are pairwise
  distinct), every entry that a step of the run adds has an id that was not issued before
  that step, and at every moment of the run each key of the table is an issued id and no
  two transports have the same session id.
\<close>

theorem session_created_on_initialize:
  "constructed (snd (post_mcp req events r)) =
     (if truthy (session_header req) = None \<and> is_initialize (body_method req)
      then Suc (constructed r) else constructed r)
   \<and> constructed (snd (handleSessionRequest header events r)) = constructed r
   \<and> (truthy (session_header req) = None \<and> is_initialize (body_method req) \<longrightarrow>
        fst (post_mcp req events r) = HandledBy (constructed r)
        \<and> transports (snd (post_mcp req (events @ [SessionInitialized sid]) r)) sid
            = Some (constructed r)
        \<and> transport_sessionId (snd (post_mcp req (events @ [SessionInitialized sid]) r))
            (constructed r) = Some sid)
   \<and> (\<forall>k u. transports (router_step s r) k = Some u \<and> transports r k \<noteq> Some u
          \<longrightarrow> k \<in> set (drop (length (issued r)) (issued (router_step s r))))
   \<and> (t < constructed r \<and> transport_sessionId r t = Some closing \<and> closing \<noteq> [] \<longrightarrow>
        transports (router_step (TransportCloses t) r) closing = None
        \<and> (\<forall>k. k \<noteq> closing \<longrightarrow> transports (router_step (TransportCloses t) r) k = transports r k))
   \<and> (distinct (draws (pre @ s # post)) \<longrightarrow>
        (\<forall>k u. transports (run (pre @ [s]) initial_router) k = Some u
               \<and> transports (run pre initial_router) k \<noteq> Some u
          \<longrightarrow> k \<notin> set (issued (run pre initial_router))))
   \<and> (distinct (draws (pre @ post)) \<longrightarrow>
        (\<forall>k u. transports (run pre initial_router) k = Some u
            \<longrightarrow> k \<in> set (issued (run pre initial_router)))
      \<and> (\<forall>t1 t2 k. transport_sessionId (run pre initial_router) t1 = Some k
                   \<and> transport_sessionId (run pre initial_router) t2 = Some k
            \<longrightarrow> t1 = t2))"
proof -
  have inv: "distinct (draws (pre @ post)) \<longrightarrow>
        (\<forall>k u. transports (run pre initial_router) k = Some u
            \<longrightarrow> k \<in> set (issued (run pre initial_router)))
      \<and> (\<forall>t1 t2 k. transport_sessionId (run pre initial_router) t1 = Some k
                   \<and> transport_sessionId (run pre initial_router) t2 = Some k
            \<longrightarrow> t1 = t2)"
  proof
    assume "distinct (draws (pre @ post))"
    then have "sessions_distinct (run pre initial_router)" by (rule run_prefix_inv)
    then show "(\<forall>k u. transports (run pre initial_router) k = Some u
            \<longrightarrow> k \<in> set (issued (run pre initial_router)))
      \<and> (\<forall>t1 t2 k. transport_sessionId (run pre initial_router) t1 = Some k
                   \<and> transport_sessionId (run pre initial_router) t2 = Some k
            \<longrightarrow> t1 = t2)"
      unfolding sessions_distinct_def by blast
  qed
  have fresh: "distinct (draws (pre @ s # post)) \<longrightarrow>
        (\<forall>k u. transports (run (pre @ [s]) initial_router) k = Some u
               \<and> transports (run pre initial_router) k \<noteq> Some u
          \<longrightarrow> k \<notin> set (issued (run pre initial_router)))"
    using run_fresh_entry by blast
  have created: "truthy (session_header req) = None \<and> is_initialize (body_method req) \<longrightarrow>
        fst (post_mcp req events r) = HandledBy (constructed r)
        \<and> transports (snd (post_mcp req (events @ [SessionInitialized sid]) r)) sid
            = Some (constructed r)
        \<and> transport_sessionId (snd (post_mcp req (events @ [SessionInitialized sid]) r))
            (constructed r) = Some sid"
    using post_mcp_creates by blast
  have closed: "t < constructed r \<and> transport_sessionId r t = Some closing \<and> closing \<noteq> [] \<longrightarrow>
        transports (router_step (TransportCloses t) r) closing = None
        \<and> (\<forall>k. k \<noteq> closing \<longrightarrow> transports (router_step (TransportCloses t) r) k = transports r k)"
    using close_removes by blast
  have added: "\<forall>k u. transports (router_step s r) k = Some u \<and> transports r k \<noteq> Some u
          \<longrightarrow> k \<in> set (drop (length (issued r)) (issued (router_step s r)))"
    using router_step_new_entry by blast
  from post_mcp_constructs handleSessionRequest_constructs created added closed fresh inv
  show ?thesis by blast
qed

text \<open>
  C2, witness: a run of two initialize requests, each answered by a transport that starts
  a session, and the closure of the first transport. The second request constructs the
  second transport and adds an entry whose id was not issued before; after both, the two
  transports have different ids; the closure removes the entry of the first and keeps
  that of the second.
\<close>

theorem session_created_on_initialize_witness:
  "constructed (snd (post_mcp initialize_request [] one_session)) = 2
   \<and> transports (snd (post_mcp initialize_request [SessionInitialized uuid_b] one_session)) uuid_b
       = Some 1
   \<and> transports (router_step (TransportCloses 0)
                   (snd (post_mcp initialize_request [SessionInitialized uuid_b] one_session))) uuid_a
       = None
   \<and> transports (router_step (TransportCloses 0)
                   (snd (post_mcp initialize_request [SessionInitialized uuid_b] one_session))) uuid_b
       = Some 1
   \<and> distinct (draws [PostMcp initialize_request [SessionInitialized uuid_a],
                       PostMcp initialize_request [SessionInitialized uuid_b],
                       TransportCloses 0])
   \<and> uuid_b \<notin> set (issued (run [PostMcp initialize_request [SessionInitialized uuid_a]]
                                  initial_router))
   \<and> transport_sessionId (run [PostMcp initialize_request [SessionInitialized uuid_a],
                                PostMcp initialize_request [SessionInitialized uuid_b]]
                               initial_router) 0 = Some uuid_a
   \<and> transport_sessionId (run [PostMcp initialize_request [SessionInitialized uuid_a],
                                PostMcp initialize_request [SessionInitialized uuid_b]]
                               initial_router) 1 = Some uuid_b"
proof -
  let ?p1 = "PostMcp initialize_request [SessionInitialized uuid_a]"
  let ?p2 = "PostMcp initialize_request [SessionInitialized uuid_b]"
  let ?two = "snd (post_mcp initialize_request [SessionInitialized uuid_b] one_session)"
  have init: "truthy (session_header initialize_request) = None
              \<and> is_initialize (body_method initialize_request) \<and> constructed one_session = 1"
    by (simp add: truthy_def is_initialize_def initialize_request_def one_session_def)
  have two: "0 < constructed ?two \<and> transport_sessionId ?two 0 = Some uuid_a \<and> uuid_a \<noteq> []
             \<and> uuid_b \<noteq> uuid_a \<and> transports ?two uuid_b = Some 1"
    by (simp add: post_mcp_def truthy_def is_initialize_def initialize_request_def one_session_def
        handleRequest_def onsessioninitialized_def uuid_a_def uuid_b_def)
  have d: "distinct (draws ([?p1] @ ?p2 # [TransportCloses 0]))"
    by (simp add: draws_def uuid_a_def uuid_b_def)
  have run1: "run [?p1] initial_router = one_session"
    by (simp add: run_def post_mcp_def truthy_def is_initialize_def initialize_request_def
        initial_router_def one_session_def handleRequest_def onsessioninitialized_def)
  have run2: "run ([?p1] @ [?p2]) initial_router = ?two"
    using run1 by (simp add: run_def)
  have new: "transports (run ([?p1] @ [?p2]) initial_router) uuid_b = Some 1
             \<and> transports (run [?p1] initial_router) uuid_b \<noteq> Some 1"
    using two by (simp only: run2 run1) (simp add: one_session_def uuid_a_def uuid_b_def)
  have ids: "transport_sessionId (run ([?p1] @ [?p2]) initial_router) 0 = Some uuid_a
             \<and> transport_sessionId (run ([?p1] @ [?p2]) initial_router) 1 = Some uuid_b"
    by (simp only: run2)
       (simp add: post_mcp_def truthy_def is_initialize_def initialize_request_def one_session_def
        handleRequest_def onsessioninitialized_def uuid_a_def uuid_b_def)
  from session_created_on_initialize
         [of initialize_request "[]" one_session None uuid_b "TransportCloses 0" 0 uuid_a
             "[?p1]" "[TransportCloses 0]"]
       init
  have c1: "constructed (snd (post_mcp initialize_request [] one_session)) = 2"
    by simp
  from session_created_on_initialize
         [of initialize_request "[]" ?two None uuid_b ?p2 0 uuid_a "[?p1]" "[TransportCloses 0]"]
       two d new
  have c2: "transports (router_step (TransportCloses 0) ?two) uuid_a = None
            \<and> transports (router_step (TransportCloses 0) ?two) uuid_b = Some 1
            \<and> uuid_b \<notin> set (issued (run [?p1] initial_router))"
    by auto
  from c1 c2 two d ids show ?thesis by simp
qed

text \<open>
  C2, as stated, fails: a POST without a session header whose body has the method
  \<open>initialize\<close>, handled by a transport that does not start a session (it refuses the
  request), makes the router construct a transport, but no entry appears in the Session
  Table.
\<close>

theorem initialize_without_entry:
  "truthy (session_header initialize_request) = None
   \<and> is_initialize (body_method initialize_request)
   \<and> constructed (snd (post_mcp initialize_request [] initial_router)) = 1
   \<and> transports (snd (post_mcp initialize_request [] initial_router)) = Map.empty"
  by (simp add: post_mcp_def truthy_def is_initialize_def initial_router_def handleRequest_def
      initialize_request_def)

end
